theory Spec2Isabelle
  imports Main
begin

section \<open>JavaScript values\<close>

text \<open>
  A JavaScript string is a sequence of UTF-16 code units; it is modelled as the list of
  its code units. The regular expressions of the source have no \<open>u\<close> flag, so they work on
  code units too. Numbers that hold instants and sizes are integers far below \<open>2^53\<close>
  (microseconds since the epoch are about \<open>1.8 * 10^15\<close>), where the arithmetic of
  doubles is exact: they are modelled as \<open>int\<close>.
\<close>

type_synonym jsstring = "nat list"

definition js :: "string \<Rightarrow> jsstring" where
  "js s = map of_char s"

text \<open>What a \<open>throw\<close> carries: an \<open>Error\<close> object with its message, or any other value.\<close>

datatype thrown = Error jsstring | NonError

section \<open>File name sanitizer (FileUpload)\<close>

definition hyphen :: nat where
  "hyphen = 45"

definition isHyphen :: "nat \<Rightarrow> bool" where
  "isHyphen c = (c = hyphen)"

text \<open>The class \<open>\s\<close>: white space and line terminators of ECMAScript.\<close>

definition isWhiteSpace :: "nat \<Rightarrow> bool" where
  "isWhiteSpace c =
     (c \<in> {9, 10, 11, 12, 13, 32, 160, 5760, 8232, 8233, 8239, 8287, 12288, 65279}
      \<or> (8192 \<le> c \<and> c \<le> 8202))"

text \<open>The class \<open>[a-zA-Z0-9-_]\<close>, whose complement the second replacement matches.\<close>

definition isFilenameChar :: "nat \<Rightarrow> bool" where
  "isFilenameChar c =
     ((97 \<le> c \<and> c \<le> 122) \<or> (65 \<le> c \<and> c \<le> 90) \<or> (48 \<le> c \<and> c \<le> 57)
      \<or> c = 45 \<or> c = 95)"

text \<open>
  \<open>s.replace(/C+/g, r)\<close> for a character class \<open>C\<close>: every maximal run of characters of
  the class is replaced by \<open>r\<close>.
\<close>

function replaceRuns :: "('a \<Rightarrow> bool) \<Rightarrow> 'a list \<Rightarrow> 'a list \<Rightarrow> 'a list" where
  "replaceRuns p r [] = []"
| "replaceRuns p r (x # xs) =
     (if p x then r @ replaceRuns p r (dropWhile p xs) else x # replaceRuns p r xs)"
  by pat_completeness auto
termination
  by (relation "measure (\<lambda>(p, r, xs). length xs)")
    (auto simp: length_dropWhile_le less_Suc_eq_le)

text \<open>\<open>s.replace(/C/g, r)\<close>: every single character of the class is replaced by \<open>r\<close>.\<close>

definition replaceEach :: "('a \<Rightarrow> bool) \<Rightarrow> 'a list \<Rightarrow> 'a list \<Rightarrow> 'a list" where
  "replaceEach p r xs = concat (map (\<lambda>c. if p c then r else [c]) xs)"

text \<open>
  \<open>s.replace(/^C+|C+$/g, "")\<close>: the run at the start and the run at the end are removed.
  \<open>s.trim()\<close> is the same operation for the class of white space.
\<close>

definition stripEnds :: "('a \<Rightarrow> bool) \<Rightarrow> 'a list \<Rightarrow> 'a list" where
  "stripEnds p xs = rev (dropWhile p (rev (dropWhile p xs)))"

definition trim :: "jsstring \<Rightarrow> jsstring" where
  "trim s = stripEnds isWhiteSpace s"

definition sanitizeInput :: "jsstring \<Rightarrow> jsstring" where
  "sanitizeInput input =
     (let sanitized = replaceRuns isWhiteSpace (js ''-'') input;
          sanitized = replaceEach (\<lambda>c. \<not> isFilenameChar c) (js ''-'') sanitized;
          sanitized = replaceRuns isHyphen (js ''-'') sanitized;
          sanitized = stripEnds isHyphen sanitized
      in sanitized)"

text \<open>No two adjacent elements of the list both satisfy \<open>p\<close>.\<close>

fun noAdj :: "('a \<Rightarrow> bool) \<Rightarrow> 'a list \<Rightarrow> bool" where
  "noAdj p (x # y # zs) = (\<not> (p x \<and> p y) \<and> noAdj p (y # zs))"
| "noAdj p _ = True"

text \<open>The shape of a sanitized field.\<close>

definition isSanitized :: "jsstring \<Rightarrow> bool" where
  "isSanitized t =
     (list_all isFilenameChar t \<and> noAdj isHyphen t \<and> stripEnds isHyphen t = t)"

section \<open>Account blob classifier (AccountBlobs)\<close>

record BlobMetadata =
  blob_name :: jsstring
  blob_owner :: jsstring
  expirationMicros :: int
  blob_size :: int

text \<open>
  \<open>isExpired\<close> reads the clock itself (\<open>Date.now()\<close>, in milliseconds) every time it is
  called. The clock is an operation on a world \<open>'w\<close>: a reading and the world after it.
\<close>

definition isExpired :: "('w \<Rightarrow> int \<times> 'w) \<Rightarrow> int \<Rightarrow> 'w \<Rightarrow> bool \<times> 'w" where
  "isExpired dateNow expMicros w =
     (let (t, w') = dateNow w;
          currentTimeMicros = t * 1000
      in (currentTimeMicros > expMicros, w'))"

text \<open>\<open>Array.prototype.filter\<close> with a callback that acts on the world, left to right.\<close>

fun filter_js :: "('a \<Rightarrow> 'w \<Rightarrow> bool \<times> 'w) \<Rightarrow> 'a list \<Rightarrow> 'w \<Rightarrow> 'a list \<times> 'w" where
  "filter_js p [] w = ([], w)"
| "filter_js p (x # xs) w =
     (let (b, w1) = p x w;
          (ys, w2) = filter_js p xs w1
      in (if b then x # ys else ys, w2))"

text \<open>What \<open>n\<close> successive calls of \<open>Date.now()\<close> return, and the world after them.\<close>

fun readings :: "('w \<Rightarrow> int \<times> 'w) \<Rightarrow> nat \<Rightarrow> 'w \<Rightarrow> int list \<times> 'w" where
  "readings clock 0 w = ([], w)"
| "readings clock (Suc n) w =
     (let (t, w1) = clock w;
          (ts, w2) = readings clock n w1
      in (t # ts, w2))"

definition currentBlobs ::
  "('w \<Rightarrow> int \<times> 'w) \<Rightarrow> BlobMetadata list \<Rightarrow> 'w \<Rightarrow> BlobMetadata list \<times> 'w" where
  "currentBlobs dateNow blobs w =
     (let (ys, w') =
        filter_js (\<lambda>blob v. let (e, v') = isExpired dateNow (expirationMicros blob) v
                            in (\<not> e, v')) blobs w
      in (rev ys, w'))"

definition expiredBlobs ::
  "('w \<Rightarrow> int \<times> 'w) \<Rightarrow> BlobMetadata list \<Rightarrow> 'w \<Rightarrow> BlobMetadata list \<times> 'w" where
  "expiredBlobs dateNow blobs w =
     (let (ys, w') = filter_js (\<lambda>blob. isExpired dateNow (expirationMicros blob)) blobs w
      in (rev ys, w'))"

text \<open>One render: the current view is computed first, then the expired view.\<close>

definition views ::
  "('w \<Rightarrow> int \<times> 'w) \<Rightarrow> BlobMetadata list \<Rightarrow> 'w \<Rightarrow> BlobMetadata list \<times> BlobMetadata list" where
  "views dateNow blobs w =
     (let (cur, w1) = currentBlobs dateNow blobs w;
          (exp, w2) = expiredBlobs dateNow blobs w1
      in (cur, exp))"

text \<open>A clock that stands still, and one that advances by a millisecond at each reading.\<close>

definition fixedClock :: "int \<Rightarrow> unit \<Rightarrow> int \<times> unit" where
  "fixedClock t w = (t, w)"

definition tickingClock :: "int \<Rightarrow> int \<times> int" where
  "tickingClock w = (w, w + 1)"

record AccountInfo =
  address :: jsstring

text \<open>
  The state of the listing: the last fetched result (\<open>blobs\<close>) and the requests
  \<open>getAccountBlobs\<close> that are in flight, by the address they ask for.
\<close>

record listing =
  blobs :: "BlobMetadata list"
  pending :: "jsstring list"

text \<open>
  The effect; React runs it when the component mounts and whenever \<open>account\<close> or
  \<open>refreshTrigger\<close> has changed.
\<close>

definition effect :: "AccountInfo option \<Rightarrow> listing \<Rightarrow> listing" where
  "effect account s =
     (case account of
        None \<Rightarrow> s\<lparr>blobs := []\<rparr>
      | Some a \<Rightarrow> s\<lparr>pending := pending s @ [address a]\<rparr>)"

text \<open>
  The request at position \<open>i\<close> resolves with \<open>result\<close>: the \<open>then\<close> callback stores it.
\<close>

definition fetchResolved :: "nat \<Rightarrow> BlobMetadata list \<Rightarrow> listing \<Rightarrow> listing" where
  "fetchResolved i result s =
     (if i < length (pending s)
      then s\<lparr>blobs := result, pending := take i (pending s) @ drop (Suc i) (pending s)\<rparr>
      else s)"

text \<open>
  What happens to the listing over time: the effect runs (the account or the refresh
  counter has changed), or a request in flight resolves.
\<close>

datatype step = Effect "AccountInfo option" | Resolved nat "BlobMetadata list"

fun listingStep :: "step \<Rightarrow> listing \<Rightarrow> listing" where
  "listingStep (Effect account) s = effect account s"
| "listingStep (Resolved i result) s = fetchResolved i result s"

definition listingAfter :: "step list \<Rightarrow> listing \<Rightarrow> listing" where
  "listingAfter steps s = foldl (\<lambda>st x. listingStep x st) s steps"

fun connectedAddress :: "step \<Rightarrow> jsstring list" where
  "connectedAddress (Effect (Some a)) = [address a]"
| "connectedAddress _ = []"

fun isConnectedEffect :: "step \<Rightarrow> bool" where
  "isConnectedEffect (Effect (Some a)) = True"
| "isConnectedEffect _ = False"

section \<open>Dual-path transaction submitter (useSubmitFileToChain)\<close>

record Wallet =
  isAptosNativeWallet :: bool

record BlobCommitments =
  blob_merkle_root :: jsstring
  raw_data_size :: int

record File =
  file_name :: jsstring
  file_type :: jsstring
  file_bytes :: "nat list"

text \<open>The argument of \<open>ShelbyBlobClient.createRegisterBlobPayload\<close>.\<close>

record RegisterBlobArgs =
  arg_account :: jsstring
  arg_blobName :: jsstring
  arg_blobMerkleRoot :: jsstring
  arg_numChunksets :: int
  arg_expirationMicros :: int
  arg_blobSize :: int

record ProviderConfig =
  erasureN :: "int option"
  erasureK :: "int option"
  erasureD :: "int option"

text \<open>
  Every call that leaves the code of the repository is logged with its arguments and
  its outcome (\<open>Inl\<close>: it threw or its promise was rejected), and so is what the
  interface shows (the success dialog, the alert). The payload \<open>'p\<close>, the raw
  transaction \<open>'r\<close>, an authenticator \<open>'a\<close>, the sponsor account \<open>'k\<close> and the
  erasure coding provider \<open>'v\<close> are opaque objects of the SDKs; a raw transaction stands
  for the object that \<open>build.simple\<close> returned.
\<close>

datatype ('p, 'r, 'a, 'k, 'v) event =
    ExpectedTotalChunksets int "thrown + int"
  | CreateRegisterBlobPayload RegisterBlobArgs "thrown + 'p"
  | SignAndSubmitTransaction 'p "thrown + jsstring"
  | AptosWaitForTransaction jsstring "thrown + unit"
  | AccountFromPrivateKey "jsstring option" "thrown + 'k"
  | BuildSimple jsstring 'p bool "thrown + 'r"
  | SignTransaction 'r "thrown + 'a"
  | SignAsFeePayer 'k 'r "thrown + 'a"
  | SubmitSimple 'r 'a 'a "thrown + jsstring"
  | ShelbyWaitForTransaction jsstring "thrown + unit"
  | CreateProvider "ProviderConfig option" "thrown + 'v"
  | GenerateCommitments 'v "nat list" "thrown + BlobCommitments"
  | DateNow int
  | UploadFileToRcp File "thrown + unit"
  | SuccessDialog jsstring jsstring
  | OnUploadSuccess "thrown + unit"
  | ConsoleError thrown
  | Alert jsstring

text \<open>
  The collaborators. The synchronous functions of the SDK compute on their arguments
  alone; a call to the wallet, to the chain or to the storage network acts on the world.
\<close>

record ('w, 'p, 'r, 'a, 'k, 'v) env =
  expectedTotalChunksets :: "int \<Rightarrow> thrown + int"
  createRegisterBlobPayload :: "RegisterBlobArgs \<Rightarrow> thrown + 'p"
  signAndSubmitTransaction :: "'p \<Rightarrow> 'w \<Rightarrow> (thrown + jsstring) \<times> 'w"
  aptosWaitForTransaction :: "jsstring \<Rightarrow> 'w \<Rightarrow> (thrown + unit) \<times> 'w"
  accountFromPrivateKey :: "jsstring option \<Rightarrow> thrown + 'k"
  buildSimple :: "jsstring \<Rightarrow> 'p \<Rightarrow> bool \<Rightarrow> 'w \<Rightarrow> (thrown + 'r) \<times> 'w"
  signTransaction :: "'r \<Rightarrow> 'w \<Rightarrow> (thrown + 'a) \<times> 'w"
  signAsFeePayer :: "'k \<Rightarrow> 'r \<Rightarrow> thrown + 'a"
  submitSimple :: "'r \<Rightarrow> 'a \<Rightarrow> 'a \<Rightarrow> 'w \<Rightarrow> (thrown + jsstring) \<times> 'w"
  shelbyWaitForTransaction :: "jsstring \<Rightarrow> 'w \<Rightarrow> (thrown + unit) \<times> 'w"
  createProvider :: "ProviderConfig option \<Rightarrow> 'w \<Rightarrow> (thrown + 'v) \<times> 'w"
  generateCommitments :: "'v \<Rightarrow> nat list \<Rightarrow> 'w \<Rightarrow> (thrown + BlobCommitments) \<times> 'w"
  dateNow :: "'w \<Rightarrow> int \<times> 'w"
  uploadFileToRcp :: "File \<Rightarrow> 'w \<Rightarrow> (thrown + unit) \<times> 'w"
  onUploadSuccess :: "('w \<Rightarrow> (thrown + unit) \<times> 'w) option"

text \<open>The state the hook exposes, with the world and the log of calls.\<close>

record ('w, 'e) submit_state =
  world :: 'w
  trace :: "'e list"
  isSubmitting :: bool
  error :: "jsstring option"

type_synonym ('s, 'x) prog = "'s \<Rightarrow> (thrown + 'x) \<times> 's"

definition ret :: "'x \<Rightarrow> ('s, 'x) prog" where
  "ret x s = (Inr x, s)"

text \<open>Sequencing of awaited steps: a step that throws ends the sequence.\<close>

definition andThen :: "('s, 'x) prog \<Rightarrow> ('x \<Rightarrow> ('s, 'y) prog) \<Rightarrow> ('s, 'y) prog" where
  "andThen m f s = (case m s of (Inl e, s') \<Rightarrow> (Inl e, s') | (Inr x, s') \<Rightarrow> f x s')"

text \<open>A call that acts on the world, and a call of a synchronous function.\<close>

definition call ::
  "('w \<Rightarrow> (thrown + 'x) \<times> 'w) \<Rightarrow> (thrown + 'x \<Rightarrow> 'e)
    \<Rightarrow> (('w, 'e, 'z) submit_state_scheme, 'x) prog" where
  "call oper ev s =
     (let (res, w') = oper (world s)
      in (res, s\<lparr>world := w', trace := trace s @ [ev res]\<rparr>))"

definition callSync ::
  "(thrown + 'x) \<Rightarrow> (thrown + 'x \<Rightarrow> 'e) \<Rightarrow> (('w, 'e, 'z) submit_state_scheme, 'x) prog" where
  "callSync res ev s = (res, s\<lparr>trace := trace s @ [ev res]\<rparr>)"

definition errorMessage :: "thrown \<Rightarrow> jsstring" where
  "errorMessage err =
     (case err of Error message \<Rightarrow> message | NonError \<Rightarrow> js ''An unknown error occurred'')"

text \<open>The body of the \<open>try\<close> block.\<close>

definition submitBody ::
  "('w, 'p, 'r, 'a, 'k, 'v) env \<Rightarrow> jsstring option \<Rightarrow> AccountInfo \<Rightarrow> Wallet
    \<Rightarrow> BlobCommitments \<Rightarrow> File \<Rightarrow> int
    \<Rightarrow> (('w, ('p, 'r, 'a, 'k, 'v) event, 'z) submit_state_scheme, jsstring) prog" where
  "submitBody env sponsorKey account wallet commitment file expMicros =
     andThen (callSync (expectedTotalChunksets env (raw_data_size commitment))
                (ExpectedTotalChunksets (raw_data_size commitment))) (\<lambda>chunksets.
     let args = \<lparr>arg_account = address account,
                 arg_blobName = file_name file,
                 arg_blobMerkleRoot = blob_merkle_root commitment,
                 arg_numChunksets = chunksets,
                 arg_expirationMicros = expMicros,
                 arg_blobSize = raw_data_size commitment\<rparr>
     in
     andThen (callSync (createRegisterBlobPayload env args)
                (CreateRegisterBlobPayload args)) (\<lambda>payload.
     if isAptosNativeWallet wallet then
       andThen (call (signAndSubmitTransaction env payload)
                  (SignAndSubmitTransaction payload)) (\<lambda>hash.
       andThen (call (aptosWaitForTransaction env hash)
                  (AptosWaitForTransaction hash)) (\<lambda>_.
       ret hash))
     else
       andThen (callSync (accountFromPrivateKey env sponsorKey)
                  (AccountFromPrivateKey sponsorKey)) (\<lambda>sponsorAccount.
       andThen (call (buildSimple env (address account) payload True)
                  (BuildSimple (address account) payload True)) (\<lambda>rawTransaction.
       andThen (call (signTransaction env rawTransaction)
                  (SignTransaction rawTransaction)) (\<lambda>walletAuthenticator.
       andThen (callSync (signAsFeePayer env sponsorAccount rawTransaction)
                  (SignAsFeePayer sponsorAccount rawTransaction)) (\<lambda>sponsorAuthenticator.
       andThen (call (submitSimple env rawTransaction walletAuthenticator sponsorAuthenticator)
                  (SubmitSimple rawTransaction walletAuthenticator sponsorAuthenticator))
                  (\<lambda>hash.
       andThen (call (shelbyWaitForTransaction env hash)
                  (ShelbyWaitForTransaction hash)) (\<lambda>_.
       ret hash))))))))"

text \<open>
  \<open>submitFileToChain\<close>: the guard, the two state updates, the \<open>try\<close> block, and its
  \<open>catch\<close> (the message is stored, the error is thrown again) and \<open>finally\<close>. The
  erasure coding parameters are accepted and not used.
\<close>

definition submitFileToChain ::
  "('w, 'p, 'r, 'a, 'k, 'v) env \<Rightarrow> jsstring option \<Rightarrow> AccountInfo option \<Rightarrow> Wallet option
    \<Rightarrow> BlobCommitments \<Rightarrow> File \<Rightarrow> int \<Rightarrow> int option \<Rightarrow> int option \<Rightarrow> int option
    \<Rightarrow> (('w, ('p, 'r, 'a, 'k, 'v) event, 'z) submit_state_scheme, jsstring) prog" where
  "submitFileToChain env sponsorKey account wallet commitment file expMicros
       erasure_n erasure_k erasure_d s =
     (case (account, wallet) of
        (Some acc, Some wal) \<Rightarrow>
          (let s1 = s\<lparr>isSubmitting := True\<rparr>;
               s2 = s1\<lparr>error := None\<rparr>
           in case submitBody env sponsorKey acc wal commitment file expMicros s2 of
                (Inr transactionHash, s3) \<Rightarrow>
                  (Inr transactionHash, s3\<lparr>isSubmitting := False\<rparr>)
              | (Inl err, s3) \<Rightarrow>
                  (Inl err, s3\<lparr>error := Some (errorMessage err), isSubmitting := False\<rparr>))
      | _ \<Rightarrow> (Inl (Error (js ''Account and wallet are required'')), s))"

text \<open>The events a run has added to the log.\<close>

definition eventsSince :: "('w, 'e, 'z) submit_state_scheme \<Rightarrow> ('w, 'e, 'y) submit_state_scheme \<Rightarrow> 'e list" where
  "eventsSince s s' = drop (length (trace s)) (trace s')"

section \<open>Commitment generation (encodeFile)\<close>

text \<open>A parameter is put into the provider's configuration when it is truthy.\<close>

definition truthy :: "int option \<Rightarrow> int option" where
  "truthy x = (case x of None \<Rightarrow> None | Some v \<Rightarrow> if v = 0 then None else Some v)"

definition encodeFile ::
  "('w, 'p, 'r, 'a, 'k, 'v) env \<Rightarrow> File \<Rightarrow> int option \<Rightarrow> int option \<Rightarrow> int option
    \<Rightarrow> (('w, ('p, 'r, 'a, 'k, 'v) event, 'z) submit_state_scheme, BlobCommitments) prog" where
  "encodeFile env file erasure_n erasure_k erasure_d =
     (let data = file_bytes file;
          providerConfig = \<lparr>erasureN = truthy erasure_n, erasureK = truthy erasure_k,
                            erasureD = truthy erasure_d\<rparr>;
          config = (if erasureN providerConfig = None \<and> erasureK providerConfig = None
                       \<and> erasureD providerConfig = None
                    then None else Some providerConfig)
      in andThen (call (createProvider env config) (CreateProvider config)) (\<lambda>provider.
         andThen (call (generateCommitments env provider data)
                    (GenerateCommitments provider data)) (\<lambda>commitments.
         ret commitments)))"

section \<open>Upload sequencer (FileUpload)\<close>

record Form =
  selectedFile :: "File option"
  location :: jsstring
  date :: jsstring
  id' :: jsstring
  duration :: int
  redundancyLevel :: jsstring

record RedundancyOption =
  opt_value :: jsstring
  opt_erasure_n :: int
  opt_erasure_k :: int
  opt_erasure_d :: int

text \<open>The durations of the picker, in microseconds.\<close>

definition durationOptions :: "(jsstring \<times> int) list" where
  "durationOptions =
     [(js ''1 minute'', 60 * 1000000),
      (js ''1 hour'', 60 * 60 * 1000000),
      (js ''1 day'', 24 * 60 * 60 * 1000000),
      (js ''1 week'', 7 * 24 * 60 * 60 * 1000000),
      (js ''1 month'', 30 * 24 * 60 * 60 * 1000000),
      (js ''1 year'', 365 * 24 * 60 * 60 * 1000000)]"

definition redundancyOptions :: "RedundancyOption list" where
  "redundancyOptions =
     [\<lparr>opt_value = js ''economic'', opt_erasure_n = 12, opt_erasure_k = 10, opt_erasure_d = 11\<rparr>,
      \<lparr>opt_value = js ''standard'', opt_erasure_n = 16, opt_erasure_k = 10, opt_erasure_d = 13\<rparr>,
      \<lparr>opt_value = js ''high'', opt_erasure_n = 20, opt_erasure_k = 10, opt_erasure_d = 15\<rparr>]"

text \<open>\<open>s.split(".")\<close>: the pieces between the occurrences of the separator.\<close>

fun split_js :: "nat \<Rightarrow> jsstring \<Rightarrow> jsstring list" where
  "split_js sep [] = [[]]"
| "split_js sep (x # xs) =
     (case split_js sep xs of
        [] \<Rightarrow> (if x = sep then [[], []] else [[x]])
      | piece # pieces \<Rightarrow>
          (if x = sep then [] # piece # pieces else (x # piece) # pieces))"

definition getFileExtension :: "File option \<Rightarrow> jsstring" where
  "getFileExtension sel =
     (case sel of
        None \<Rightarrow> []
      | Some file \<Rightarrow>
          (let parts = split_js 46 (file_name file)
           in if length parts > 1 then js ''.'' @ last parts else []))"

definition generateFileName :: "Form \<Rightarrow> jsstring" where
  "generateFileName form =
     (let sanitizedLocation = sanitizeInput (location form);
          sanitizedDate = sanitizeInput (date form);
          sanitizedId = sanitizeInput (id' form);
          extension = getFileExtension (selectedFile form)
      in sanitizedLocation @ js ''_'' @ sanitizedDate @ js ''_'' @ sanitizedId @ extension)"

definition isFormValid :: "Form \<Rightarrow> bool" where
  "isFormValid form =
     (trim (location form) \<noteq> [] \<and> trim (date form) \<noteq> [] \<and> trim (id' form) \<noteq> [])"

record ('w, 'e) upload_state = "('w, 'e) submit_state" +
  isUploading :: bool
  showSuccessDialog :: bool
  transactionHash :: jsstring
  uploadedFileName :: jsstring

definition readClock ::
  "('w, 'p, 'r, 'a, 'k, 'v) env
    \<Rightarrow> (('w, ('p, 'r, 'a, 'k, 'v) event, 'z) submit_state_scheme, int) prog" where
  "readClock env s =
     (let (t, w') = dateNow env (world s)
      in (Inr t, s\<lparr>world := w', trace := trace s @ [DateNow t]\<rparr>))"

definition reportSuccess ::
  "jsstring \<Rightarrow> jsstring
    \<Rightarrow> (('w, ('p, 'r, 'a, 'k, 'v) event, 'z) upload_state_scheme, unit) prog" where
  "reportSuccess txHash newFileName s =
     (Inr (), s\<lparr>transactionHash := txHash, uploadedFileName := newFileName,
                showSuccessDialog := True,
                trace := trace s @ [SuccessDialog txHash newFileName]\<rparr>)"

text \<open>The body of the \<open>try\<close> block of \<open>uploadFile\<close>, for the selected file.\<close>

definition uploadBody ::
  "('w, 'p, 'r, 'a, 'k, 'v) env \<Rightarrow> jsstring option \<Rightarrow> AccountInfo option \<Rightarrow> Wallet option
    \<Rightarrow> Form \<Rightarrow> File
    \<Rightarrow> (('w, ('p, 'r, 'a, 'k, 'v) event, 'z) upload_state_scheme, unit) prog" where
  "uploadBody env sponsorKey account wallet form sel =
     (let newFileName = generateFileName form;
          fileWithNewName = \<lparr>file_name = newFileName, file_type = file_type sel,
                             file_bytes = file_bytes sel\<rparr>;
          redundancyConfig =
            (case find (\<lambda>opt. opt_value opt = redundancyLevel form) redundancyOptions of
               Some opt \<Rightarrow> opt
             | None \<Rightarrow> redundancyOptions ! 1)
      in
      andThen (encodeFile env fileWithNewName
                 (Some (opt_erasure_n redundancyConfig))
                 (Some (opt_erasure_k redundancyConfig))
                 (Some (opt_erasure_d redundancyConfig))) (\<lambda>commitments.
      andThen (readClock env) (\<lambda>now.
      let expMicros = now * 1000 + duration form in
      andThen (submitFileToChain env sponsorKey account wallet commitments fileWithNewName
                 expMicros
                 (Some (opt_erasure_n redundancyConfig))
                 (Some (opt_erasure_k redundancyConfig))
                 (Some (opt_erasure_d redundancyConfig))) (\<lambda>txHash.
      andThen (call (uploadFileToRcp env fileWithNewName)
                 (UploadFileToRcp fileWithNewName)) (\<lambda>_.
      andThen (reportSuccess txHash newFileName) (\<lambda>_.
      (case onUploadSuccess env of
         None \<Rightarrow> ret ()
       | Some callback \<Rightarrow> call callback OnUploadSuccess)))))))"

definition uploadFailedMessage :: "thrown \<Rightarrow> jsstring" where
  "uploadFailedMessage err =
     js ''Upload failed: '' @ (case err of Error message \<Rightarrow> message | NonError \<Rightarrow> js ''Unknown error'')"

text \<open>
  \<open>uploadFile\<close>: the guard, then the \<open>try\<close> block with its \<open>catch\<close> (the error is logged
  and shown in an alert, and not thrown again) and its \<open>finally\<close>.
\<close>

definition uploadFile ::
  "('w, 'p, 'r, 'a, 'k, 'v) env \<Rightarrow> jsstring option \<Rightarrow> AccountInfo option \<Rightarrow> Wallet option
    \<Rightarrow> Form \<Rightarrow> ('w, ('p, 'r, 'a, 'k, 'v) event, 'z) upload_state_scheme
    \<Rightarrow> ('w, ('p, 'r, 'a, 'k, 'v) event, 'z) upload_state_scheme" where
  "uploadFile env sponsorKey account wallet form s =
     (case selectedFile form of
        None \<Rightarrow> s
      | Some sel \<Rightarrow>
          if account = None \<or> wallet = None \<or> \<not> isFormValid form then s
          else
            (let s1 = s\<lparr>isUploading := True\<rparr>
             in case uploadBody env sponsorKey account wallet form sel s1 of
                  (Inr _, s2) \<Rightarrow> s2\<lparr>isUploading := False\<rparr>
                | (Inl err, s2) \<Rightarrow>
                    s2\<lparr>trace := trace s2 @ [ConsoleError err, Alert (uploadFailedMessage err)],
                       isUploading := False\<rparr>))"

section \<open>Registration payload builder\<close>

text \<open>The error of an invalid argument.\<close>

definition validationError :: thrown where
  "validationError = Error (js ''ValidationError'')"

text \<open>
  Modelled from the spec: the registration payload builder
  (\<open>ShelbyBlobClient.createRegisterBlobPayload\<close>, a function of the storage SDK) is not
  among the sources; only its call in \<open>submitFileToChain\<close> is. Section 4.1 of the spec
  gives it one failure mode, an invalid argument: a negative size, an empty name, or an
  expiration instant that is not after now. Here \<open>now\<close> is the instant of the call, in
  microseconds, and the payload it builds is the record of its arguments.
\<close>

definition createRegisterBlobPayload_spec :: "int \<Rightarrow> RegisterBlobArgs \<Rightarrow> thrown + RegisterBlobArgs" where
  "createRegisterBlobPayload_spec now args =
     (if arg_blobSize args < 0 \<or> arg_blobName args = [] \<or> arg_expirationMicros args \<le> now
      then Inl validationError
      else Inr args)"

section \<open>Observations on the log of calls\<close>

fun buildResult :: "('p, 'r, 'a, 'k, 'v) event \<Rightarrow> (thrown + 'r) list" where
  "buildResult (BuildSimple sender payload withFeePayer res) = [res]"
| "buildResult _ = []"

definition builds :: "('p, 'r, 'a, 'k, 'v) event list \<Rightarrow> (thrown + 'r) list" where
  "builds evs = concat (map buildResult evs)"

fun authorizedObject :: "('p, 'r, 'a, 'k, 'v) event \<Rightarrow> 'r list" where
  "authorizedObject (SignTransaction r res) = [r]"
| "authorizedObject (SignAsFeePayer k r res) = [r]"
| "authorizedObject _ = []"

definition authorizedObjects :: "('p, 'r, 'a, 'k, 'v) event list \<Rightarrow> 'r list" where
  "authorizedObjects evs = concat (map authorizedObject evs)"

fun submission :: "('p, 'r, 'a, 'k, 'v) event \<Rightarrow> ('r \<times> 'a \<times> 'a) list" where
  "submission (SubmitSimple r sa fa res) = [(r, sa, fa)]"
| "submission _ = []"

definition submissions :: "('p, 'r, 'a, 'k, 'v) event list \<Rightarrow> ('r \<times> 'a \<times> 'a) list" where
  "submissions evs = concat (map submission evs)"

fun failed :: "thrown + 'x \<Rightarrow> bool" where
  "failed (Inl err) = True"
| "failed (Inr x) = False"

text \<open>A step of the sponsored path before the submission that threw.\<close>

fun failedBeforeSubmit :: "('p, 'r, 'a, 'k, 'v) event \<Rightarrow> bool" where
  "failedBeforeSubmit (ExpectedTotalChunksets n res) = failed res"
| "failedBeforeSubmit (CreateRegisterBlobPayload args res) = failed res"
| "failedBeforeSubmit (AccountFromPrivateKey key res) = failed res"
| "failedBeforeSubmit (BuildSimple sender p fee res) = failed res"
| "failedBeforeSubmit (SignTransaction r res) = failed res"
| "failedBeforeSubmit (SignAsFeePayer k r res) = failed res"
| "failedBeforeSubmit _ = False"

fun isSponsorConstruction :: "('p, 'r, 'a, 'k, 'v) event \<Rightarrow> bool" where
  "isSponsorConstruction (AccountFromPrivateKey key res) = True"
| "isSponsorConstruction _ = False"

fun isDetachedAuthorization :: "('p, 'r, 'a, 'k, 'v) event \<Rightarrow> bool" where
  "isDetachedAuthorization (SignTransaction r res) = True"
| "isDetachedAuthorization (SignAsFeePayer k r res) = True"
| "isDetachedAuthorization _ = False"

fun isNetworkCall :: "('p, 'r, 'a, 'k, 'v) event \<Rightarrow> bool" where
  "isNetworkCall (SignAndSubmitTransaction p res) = True"
| "isNetworkCall (AptosWaitForTransaction h res) = True"
| "isNetworkCall (BuildSimple sender p fee res) = True"
| "isNetworkCall (SignTransaction r res) = True"
| "isNetworkCall (SubmitSimple r sa fa res) = True"
| "isNetworkCall (ShelbyWaitForTransaction h res) = True"
| "isNetworkCall (CreateProvider cfg res) = True"
| "isNetworkCall (GenerateCommitments v bytes res) = True"
| "isNetworkCall (UploadFileToRcp fl res) = True"
| "isNetworkCall _ = False"

fun chainStepFailed :: "('p, 'r, 'a, 'k, 'v) event \<Rightarrow> bool" where
  "chainStepFailed (ExpectedTotalChunksets n res) = failed res"
| "chainStepFailed (CreateRegisterBlobPayload args res) = failed res"
| "chainStepFailed (SignAndSubmitTransaction p res) = failed res"
| "chainStepFailed (AptosWaitForTransaction h res) = failed res"
| "chainStepFailed (AccountFromPrivateKey key res) = failed res"
| "chainStepFailed (BuildSimple sender p fee res) = failed res"
| "chainStepFailed (SignTransaction r res) = failed res"
| "chainStepFailed (SignAsFeePayer k r res) = failed res"
| "chainStepFailed (SubmitSimple r sa fa res) = failed res"
| "chainStepFailed (ShelbyWaitForTransaction h res) = failed res"
| "chainStepFailed _ = False"

fun chainFinalized :: "('p, 'r, 'a, 'k, 'v) event \<Rightarrow> bool" where
  "chainFinalized (AptosWaitForTransaction h res) = (\<not> failed res)"
| "chainFinalized (ShelbyWaitForTransaction h res) = (\<not> failed res)"
| "chainFinalized _ = False"

fun isUpload :: "('p, 'r, 'a, 'k, 'v) event \<Rightarrow> bool" where
  "isUpload (UploadFileToRcp file res) = True"
| "isUpload _ = False"

fun uploadSucceeded :: "('p, 'r, 'a, 'k, 'v) event \<Rightarrow> bool" where
  "uploadSucceeded (UploadFileToRcp file res) = (\<not> failed res)"
| "uploadSucceeded _ = False"

text \<open>Success is reported by the dialog (with the hash and the name) and by the refresh.\<close>

fun isSuccessReport :: "('p, 'r, 'a, 'k, 'v) event \<Rightarrow> bool" where
  "isSuccessReport (SuccessDialog h fileName) = True"
| "isSuccessReport (OnUploadSuccess res) = True"
| "isSuccessReport _ = False"

fun isEncodeEvent :: "('p, 'r, 'a, 'k, 'v) event \<Rightarrow> bool" where
  "isEncodeEvent (CreateProvider cfg res) = True"
| "isEncodeEvent (GenerateCommitments v bytes res) = True"
| "isEncodeEvent _ = False"

fun isSubmitterEvent :: "int \<Rightarrow> ('p, 'r, 'a, 'k, 'v) event \<Rightarrow> bool" where
  "isSubmitterEvent e (ExpectedTotalChunksets n res) = True"
| "isSubmitterEvent e (CreateRegisterBlobPayload args res) = (arg_expirationMicros args = e)"
| "isSubmitterEvent e (SignAndSubmitTransaction p res) = True"
| "isSubmitterEvent e (AptosWaitForTransaction h res) = True"
| "isSubmitterEvent e (AccountFromPrivateKey key res) = True"
| "isSubmitterEvent e (BuildSimple sender p fee res) = True"
| "isSubmitterEvent e (SignTransaction r res) = True"
| "isSubmitterEvent e (SignAsFeePayer k r res) = True"
| "isSubmitterEvent e (SubmitSimple r sa fa res) = True"
| "isSubmitterEvent e (ShelbyWaitForTransaction h res) = True"
| "isSubmitterEvent e _ = False"

definition finalized :: "jsstring \<Rightarrow> ('p, 'r, 'a, 'k, 'v) event \<Rightarrow> bool" where
  "finalized h ev =
     (ev = AptosWaitForTransaction h (Inr ()) \<or> ev = ShelbyWaitForTransaction h (Inr ()))"

definition successFieldsKept ::
  "('w, 'e, 'z) upload_state_scheme \<Rightarrow> ('w, 'e, 'z) upload_state_scheme \<Rightarrow> bool" where
  "successFieldsKept s s' =
     (showSuccessDialog s' = showSuccessDialog s \<and> transactionHash s' = transactionHash s
      \<and> uploadedFileName s' = uploadedFileName s)"

text \<open>The expiration instants handed to the payload builder, and the readings of the clock.\<close>

fun payloadExpiration :: "('p, 'r, 'a, 'k, 'v) event \<Rightarrow> int list" where
  "payloadExpiration (CreateRegisterBlobPayload args res) = [arg_expirationMicros args]"
| "payloadExpiration _ = []"

definition payloadExpirations :: "('p, 'r, 'a, 'k, 'v) event list \<Rightarrow> int list" where
  "payloadExpirations evs = concat (map payloadExpiration evs)"

fun clockReading :: "('p, 'r, 'a, 'k, 'v) event \<Rightarrow> int list" where
  "clockReading (DateNow t) = [t]"
| "clockReading _ = []"

definition clockReadings :: "('p, 'r, 'a, 'k, 'v) event list \<Rightarrow> int list" where
  "clockReadings evs = concat (map clockReading evs)"

section \<open>Concrete collaborators and inputs\<close>

definition demoEnv ::
  "bool \<Rightarrow> bool \<Rightarrow> (int, RegisterBlobArgs, int, jsstring \<times> int, jsstring, unit) env" where
  "demoEnv walletApproves storageUp =
     \<lparr>expectedTotalChunksets = (\<lambda>n. Inr (n div 10485760 + 1)),
      createRegisterBlobPayload = (\<lambda>args. Inr args),
      signAndSubmitTransaction = (\<lambda>p w.
        (if walletApproves then Inr (js ''0xa1'')
         else Inl (Error (js ''User rejected the request'')), w + 1)),
      aptosWaitForTransaction = (\<lambda>h w. (Inr (), w + 1)),
      accountFromPrivateKey = (\<lambda>key.
        case key of None \<Rightarrow> Inl (Error (js ''Invalid private key'')) | Some k \<Rightarrow> Inr k),
      buildSimple = (\<lambda>sender p fee w. (Inr w, w + 1)),
      signTransaction = (\<lambda>r w.
        (if walletApproves then Inr (js ''sender'', r)
         else Inl (Error (js ''User rejected the request'')), w + 1)),
      signAsFeePayer = (\<lambda>k r. Inr (k, r)),
      submitSimple = (\<lambda>r sa fa w. (Inr (js ''0xb2''), w + 1)),
      shelbyWaitForTransaction = (\<lambda>h w. (Inr (), w + 1)),
      createProvider = (\<lambda>cfg w. (Inr (), w)),
      generateCommitments = (\<lambda>v bytes w.
        (Inr \<lparr>blob_merkle_root = js ''0xroot'', raw_data_size = int (length bytes)\<rparr>, w)),
      dateNow = (\<lambda>w. (1762131600000 + w, w + 1)),
      uploadFileToRcp = (\<lambda>f w.
        (if storageUp then Inr () else Inl (Error (js ''Storage unavailable'')), w + 1)),
      onUploadSuccess = Some (\<lambda>w. (Inr (), w))\<rparr>"

definition idleHook :: "(int, 'e) submit_state" where
  "idleHook = \<lparr>world = 0, trace = [], isSubmitting = False, error = Some (js ''earlier failure'')\<rparr>"

definition idleUpload :: "(int, 'e) upload_state" where
  "idleUpload = \<lparr>world = 0, trace = [], isSubmitting = False, error = None,
     isUploading = False, showSuccessDialog = False, transactionHash = [],
     uploadedFileName = []\<rparr>"

definition alice :: AccountInfo where
  "alice = \<lparr>address = js ''0xa11ce''\<rparr>"

definition nativeWallet :: Wallet where
  "nativeWallet = \<lparr>isAptosNativeWallet = True\<rparr>"

definition foreignWallet :: Wallet where
  "foreignWallet = \<lparr>isAptosNativeWallet = False\<rparr>"

definition photo :: File where
  "photo = \<lparr>file_name = js ''a.jpg'', file_type = js ''image/jpeg'', file_bytes = [255, 216, 255]\<rparr>"

definition photoCommitment :: BlobCommitments where
  "photoCommitment = \<lparr>blob_merkle_root = js ''0xroot'', raw_data_size = 3\<rparr>"

definition demoForm :: Form where
  "demoForm = \<lparr>selectedFile = Some photo, location = js ''New York'', date = js ''2025-11-03'',
     id' = js ''7'', duration = 24 * 60 * 60 * 1000000, redundancyLevel = js ''standard''\<rparr>"

definition unnamedPhoto :: File where
  "unnamedPhoto = \<lparr>file_name = [], file_type = js ''image/jpeg'', file_bytes = [255, 216, 255]\<rparr>"

definition validatingEnv ::
  "(int, RegisterBlobArgs, int, jsstring \<times> int, jsstring, unit) env" where
  "validatingEnv =
     (demoEnv True True)\<lparr>createRegisterBlobPayload :=
        createRegisterBlobPayload_spec 1762131600000000\<rparr>"

definition tieBlob :: BlobMetadata where
  "tieBlob = \<lparr>blob_name = js ''@0xa11ce/New-York_2025-11-03_7.jpg'', blob_owner = js ''0xa11ce'',
     expirationMicros = 1762131600000000, blob_size = 3\<rparr>"

definition bob :: AccountInfo where
  "bob = \<lparr>address = js ''0xb0b''\<rparr>"

definition staleBlob :: BlobMetadata where
  "staleBlob = \<lparr>blob_name = js ''@0xa11ce/Paris_2025-11-02_6.jpg'', blob_owner = js ''0xa11ce'',
     expirationMicros = 1762131599999999, blob_size = 5\<rparr>"


definition bobBlob :: BlobMetadata where
  "bobBlob = \<lparr>blob_name = js ''@0xb0b/Oslo_2025-11-03_1.png'', blob_owner = js ''0xb0b'',
     expirationMicros = 1762999999000000, blob_size = 8\<rparr>"

section \<open>The sanitizer is idempotent\<close>

lemma replaceRuns_id: "(\<forall>x\<in>set xs. \<not> p x) \<Longrightarrow> replaceRuns p r xs = xs"
  by (induction xs) auto

lemma replaceEach_id: "(\<forall>x\<in>set xs. \<not> p x) \<Longrightarrow> replaceEach p r xs = xs"
  by (induction xs) (auto simp: replaceEach_def)

lemma set_replaceRuns: "set (replaceRuns p r xs) \<subseteq> set r \<union> set xs"
proof (induction p r xs rule: replaceRuns.induct)
  case (1 p r)
  then show ?case by simp
next
  case (2 p r x xs)
  then show ?case using set_dropWhileD [of _ p xs] by (auto split: if_splits)
qed

lemma set_replaceEach: "set (replaceEach p r xs) \<subseteq> set r \<union> {x \<in> set xs. \<not> p x}"
  by (auto simp: replaceEach_def split: if_splits)

lemma replaceRuns_dropWhile_head:
  "replaceRuns p [h] (dropWhile p xs) = [] \<or> \<not> p (hd (replaceRuns p [h] (dropWhile p xs)))"
  by (induction xs) auto

lemma noAdj_Cons: "noAdj p (x # ys) = ((ys = [] \<or> \<not> (p x \<and> p (hd ys))) \<and> noAdj p ys)"
  by (cases ys) auto

text \<open>After the runs of a class are collapsed to one of its members, no two are adjacent.\<close>

lemma noAdj_replaceRuns: "noAdj p (replaceRuns p [h] xs)"
proof (induction p "[h]" xs rule: replaceRuns.induct)
  case (1 p)
  then show ?case by simp
next
  case (2 p x xs)
  show ?case
  proof (cases "p x")
    case True
    with 2 have "noAdj p (replaceRuns p [h] (dropWhile p xs))" by simp
    with True replaceRuns_dropWhile_head [of p h xs] show ?thesis
      by (auto simp: noAdj_Cons)
  next
    case False
    with 2 show ?thesis by (simp add: noAdj_Cons)
  qed
qed

lemma replaceRuns_noAdj:
  "noAdj p xs \<Longrightarrow> (\<forall>x\<in>set xs. p x \<longrightarrow> x = h) \<Longrightarrow> replaceRuns p [h] xs = xs"
proof (induction xs)
  case Nil
  then show ?case by simp
next
  case (Cons x xs)
  then have ih: "replaceRuns p [h] xs = xs" by (simp add: noAdj_Cons)
  show ?case
  proof (cases "p x")
    case True
    with Cons.prems have "dropWhile p xs = xs" by (cases xs) auto
    with True ih Cons.prems show ?thesis by simp
  next
    case False
    with ih show ?thesis by simp
  qed
qed

lemma noAdj_append: "noAdj p (xs @ ys) \<Longrightarrow> noAdj p xs \<and> noAdj p ys"
  by (induction p xs rule: noAdj.induct) (auto simp: noAdj_Cons)

lemma noAdj_dropWhile: "noAdj p xs \<Longrightarrow> noAdj p (dropWhile q xs)"
  using noAdj_append [of p "takeWhile q xs" "dropWhile q xs"] by simp

text \<open>What is left after the two ends are stripped is a prefix of what the first strip left.\<close>

lemma stripEnds_prefix: "\<exists>zs. dropWhile p xs = stripEnds p xs @ zs"
proof -
  have "rev (dropWhile p xs)
      = takeWhile p (rev (dropWhile p xs)) @ dropWhile p (rev (dropWhile p xs))"
    by simp
  then have "dropWhile p xs = stripEnds p xs @ rev (takeWhile p (rev (dropWhile p xs)))"
    unfolding stripEnds_def by (metis rev_append rev_rev_ident)
  then show ?thesis ..
qed

lemma noAdj_stripEnds:
  assumes "noAdj p xs"
  shows "noAdj p (stripEnds q xs)"
proof -
  obtain zs where z: "dropWhile q xs = stripEnds q xs @ zs"
    using stripEnds_prefix by blast
  from assms have "noAdj p (dropWhile q xs)" by (rule noAdj_dropWhile)
  with z show ?thesis using noAdj_append by metis
qed

lemma set_stripEnds: "set (stripEnds p xs) \<subseteq> set xs"
  by (auto simp: stripEnds_def dest!: set_dropWhileD)

lemma dropWhile_stripEnds: "dropWhile p (stripEnds p xs) = stripEnds p xs"
proof -
  obtain zs where z: "dropWhile p xs = stripEnds p xs @ zs"
    using stripEnds_prefix by blast
  show ?thesis
  proof (cases "stripEnds p xs")
    case Nil
    then show ?thesis by simp
  next
    case (Cons a as)
    with z have "hd (dropWhile p xs) = a" "dropWhile p xs \<noteq> []" by auto
    then have "\<not> p a" using hd_dropWhile by metis
    with Cons show ?thesis by simp
  qed
qed

lemma stripEnds_idem: "stripEnds p (stripEnds p xs) = stripEnds p xs"
proof -
  let ?t = "stripEnds p xs"
  have a: "dropWhile p (rev ?t) = rev ?t"
    unfolding stripEnds_def by simp
  have "stripEnds p ?t = rev (dropWhile p (rev (dropWhile p ?t)))"
    by (simp only: stripEnds_def)
  also have "\<dots> = rev (dropWhile p (rev ?t))"
    by (simp only: dropWhile_stripEnds)
  also have "\<dots> = ?t"
    by (simp only: a rev_rev_ident)
  finally show ?thesis .
qed

lemma isFilenameChar_not_space: "isFilenameChar c \<Longrightarrow> \<not> isWhiteSpace c"
  by (auto simp: isFilenameChar_def isWhiteSpace_def)

lemma sanitizeInput_fixed:
  assumes s: "isSanitized t"
  shows "sanitizeInput t = t"
proof -
  from s have a: "\<forall>c\<in>set t. \<not> isWhiteSpace c" and b: "\<forall>c\<in>set t. \<not> \<not> isFilenameChar c"
    by (auto simp: isSanitized_def list_all_iff isFilenameChar_not_space)
  have 1: "replaceRuns isWhiteSpace (js ''-'') t = t"
    using a by (rule replaceRuns_id)
  have 2: "replaceEach (\<lambda>c. \<not> isFilenameChar c) (js ''-'') t = t"
    using b by (rule replaceEach_id)
  have 3: "replaceRuns isHyphen (js ''-'') t = t"
    using s replaceRuns_noAdj [of isHyphen t hyphen]
    by (simp add: isSanitized_def js_def isHyphen_def hyphen_def)
  from s have 4: "stripEnds isHyphen t = t"
    by (simp add: isSanitized_def)
  show ?thesis by (simp add: sanitizeInput_def 1 2 3 4)
qed

lemma sanitizeInput_isSanitized: "isSanitized (sanitizeInput s)"
proof -
  let ?a = "replaceRuns isWhiteSpace (js ''-'') s"
  let ?b = "replaceEach (\<lambda>c. \<not> isFilenameChar c) (js ''-'') ?a"
  let ?c = "replaceRuns isHyphen (js ''-'') ?b"
  have t: "sanitizeInput s = stripEnds isHyphen ?c"
    by (simp add: sanitizeInput_def)
  have h: "isFilenameChar hyphen"
    by (simp add: isFilenameChar_def hyphen_def)
  have jh: "js ''-'' = [hyphen]"
    by (simp add: js_def hyphen_def)
  have "\<forall>c\<in>set ?b. isFilenameChar c"
    using set_replaceEach [of "\<lambda>c. \<not> isFilenameChar c" "js ''-''" ?a] h jh by auto
  then have "\<forall>c\<in>set ?c. isFilenameChar c"
    using set_replaceRuns [of isHyphen "js ''-''" ?b] h jh by auto
  then have 1: "list_all isFilenameChar (stripEnds isHyphen ?c)"
    using set_stripEnds [of isHyphen ?c] by (auto simp: list_all_iff)
  have "noAdj isHyphen ?c"
    unfolding jh by (rule noAdj_replaceRuns)
  then have 2: "noAdj isHyphen (stripEnds isHyphen ?c)"
    by (rule noAdj_stripEnds)
  show ?thesis
    unfolding isSanitized_def t using 1 2 stripEnds_idem by blast
qed

text \<open>
  C10: the sanitizer of the file name fields is idempotent: sanitizing a sanitized field
  gives the field back, for every string.
\<close>

theorem sanitizeInput_idempotent: "sanitizeInput (sanitizeInput s) = sanitizeInput s"
  using sanitizeInput_isSanitized by (rule sanitizeInput_fixed)

section \<open>The classifier\<close>

lemma filter_js_steady:
  assumes "\<forall>x v. fst (p x v) = q x"
  shows "fst (filter_js p xs w) = filter q xs"
  using assms
  by (induction xs arbitrary: w) (auto simp: split_beta Let_def)

lemma views_steady:
  assumes "\<forall>v. fst (clock v) = t"
  shows "views clock bs w =
     (rev (filter (\<lambda>b. \<not> t * 1000 > expirationMicros b) bs),
      rev (filter (\<lambda>b. t * 1000 > expirationMicros b) bs))"
proof -
  have e: "\<forall>b v. fst (isExpired clock (expirationMicros b) v) = (t * 1000 > expirationMicros b)"
    using assms by (simp add: isExpired_def split_beta)
  then have "\<forall>b v. fst (let (e, v') = isExpired clock (expirationMicros b) v in (\<not> e, v'))
      = (\<not> t * 1000 > expirationMicros b)"
    by (simp add: split_beta)
  then have "fst (filter_js (\<lambda>blob v. let (e, v') = isExpired clock (expirationMicros blob) v
        in (\<not> e, v')) bs w) = filter (\<lambda>b. \<not> t * 1000 > expirationMicros b) bs" for w
    by (rule filter_js_steady)
  moreover have "fst (filter_js (\<lambda>blob. isExpired clock (expirationMicros blob)) bs w)
      = filter (\<lambda>b. t * 1000 > expirationMicros b) bs" for w
    using e by (rule filter_js_steady)
  ultimately show ?thesis
    by (simp add: views_def currentBlobs_def expiredBlobs_def split_beta)
qed

lemma filter_js_readings:
  "filter_js (\<lambda>b v. let (t, v') = clock v in (q b t, v')) bs w =
     (map fst (filter (\<lambda>(b, t). q b t) (zip bs (fst (readings clock (length bs) w)))),
      snd (readings clock (length bs) w))"
  by (induction bs arbitrary: w) (simp_all add: split_beta Let_def)

lemma currentBlobs_readings:
  "currentBlobs clock bs w =
     (rev (map fst (filter (\<lambda>(b, t). \<not> t * 1000 > expirationMicros b)
        (zip bs (fst (readings clock (length bs) w))))),
      snd (readings clock (length bs) w))"
proof -
  have eq: "(\<lambda>blob v. let (e, v') = isExpired clock (expirationMicros blob) v in (\<not> e, v'))
      = (\<lambda>b v. let (t, v') = clock v in (\<not> t * 1000 > expirationMicros b, v'))"
    by (intro ext) (simp add: isExpired_def split_beta Let_def)
  have F: "filter_js (\<lambda>blob v. let (e, v') = isExpired clock (expirationMicros blob) v
        in (\<not> e, v')) bs w
      = (map fst (filter (\<lambda>(b, t). \<not> t * 1000 > expirationMicros b)
           (zip bs (fst (readings clock (length bs) w)))),
         snd (readings clock (length bs) w))"
    unfolding eq by (rule filter_js_readings)
  show ?thesis
    unfolding currentBlobs_def F by simp
qed

lemma expiredBlobs_readings:
  "expiredBlobs clock bs w =
     (rev (map fst (filter (\<lambda>(b, t). t * 1000 > expirationMicros b)
        (zip bs (fst (readings clock (length bs) w))))),
      snd (readings clock (length bs) w))"
proof -
  have eq: "(\<lambda>blob. isExpired clock (expirationMicros blob))
      = (\<lambda>b v. let (t, v') = clock v in (t * 1000 > expirationMicros b, v'))"
    by (intro ext) (simp add: isExpired_def split_beta Let_def)
  have F: "filter_js (\<lambda>blob. isExpired clock (expirationMicros blob)) bs w
      = (map fst (filter (\<lambda>(b, t). t * 1000 > expirationMicros b)
           (zip bs (fst (readings clock (length bs) w)))),
         snd (readings clock (length bs) w))"
    unfolding eq by (rule filter_js_readings)
  show ?thesis
    unfolding expiredBlobs_def F by simp
qed

text \<open>
  C3, as the code has it: each of the two filters pairs every fetched blob with the reading
  of the clock it takes for that blob (\<open>Date.now()\<close> times 1000). The blob passes the
  expired filter exactly when that reading is strictly greater than its expiration instant,
  and the current filter exactly when it is not. So a blob whose expiration instant equals
  the reading is classified as current, not expired. When every reading of a render gives
  the same instant \<open>t\<close>, a blob is in the expired view exactly when \<open>t * 1000\<close> is strictly
  greater than its expiration instant, and in the current view otherwise.
\<close>

theorem classified_by_strict_comparison:
  "currentBlobs clock bs w =
     (rev (map fst (filter (\<lambda>(b, now). \<not> now * 1000 > expirationMicros b)
        (zip bs (fst (readings clock (length bs) w))))),
      snd (readings clock (length bs) w))
   \<and> expiredBlobs clock bs w =
     (rev (map fst (filter (\<lambda>(b, now). now * 1000 > expirationMicros b)
        (zip bs (fst (readings clock (length bs) w))))),
      snd (readings clock (length bs) w))
   \<and> views clock bs w =
     (fst (currentBlobs clock bs w),
      fst (expiredBlobs clock bs (snd (readings clock (length bs) w))))
   \<and> (\<forall>(b, now) \<in> set (zip bs (fst (readings clock (length bs) w))).
         expirationMicros b = now * 1000 \<longrightarrow>
           b \<in> set (fst (currentBlobs clock bs w))
           \<and> (b, now) \<notin> set (filter (\<lambda>(b, now). now * 1000 > expirationMicros b)
                 (zip bs (fst (readings clock (length bs) w)))))
   \<and> ((\<forall>v. fst (clock v) = t) \<longrightarrow>
         (\<forall>b \<in> set bs.
            (b \<in> set (snd (views clock bs w))) = (t * 1000 > expirationMicros b)
            \<and> (b \<in> set (fst (views clock bs w))) = (\<not> t * 1000 > expirationMicros b)))"
proof -
  let ?z = "zip bs (fst (readings clock (length bs) w))"
  note c = currentBlobs_readings [of clock bs w]
  note e = expiredBlobs_readings [of clock bs w]
  have v: "views clock bs w =
     (fst (currentBlobs clock bs w),
      fst (expiredBlobs clock bs (snd (readings clock (length bs) w))))"
    by (simp add: views_def split_beta currentBlobs_readings)
  have tie: "\<forall>(b, now) \<in> set ?z. expirationMicros b = now * 1000 \<longrightarrow>
           b \<in> set (fst (currentBlobs clock bs w))
           \<and> (b, now) \<notin> set (filter (\<lambda>(b, now). now * 1000 > expirationMicros b) ?z)"
  proof clarify
    fix b now
    assume m: "(b, now) \<in> set ?z" and x: "expirationMicros b = now * 1000"
    from m x have "(b, now) \<in> set (filter (\<lambda>(b, now). \<not> now * 1000 > expirationMicros b) ?z)"
      by simp
    then have "fst (b, now)
        \<in> fst ` set (filter (\<lambda>(b, now). \<not> now * 1000 > expirationMicros b) ?z)"
      by (rule imageI)
    then have "b \<in> set (fst (currentBlobs clock bs w))"
      by (simp add: currentBlobs_readings)
    moreover from x
    have "(b, now) \<notin> set (filter (\<lambda>(b, now). now * 1000 > expirationMicros b) ?z)"
      by simp
    ultimately show "b \<in> set (fst (currentBlobs clock bs w))
        \<and> (b, now) \<notin> set (filter (\<lambda>(b, now). now * 1000 > expirationMicros b) ?z)"
      by (rule conjI)
  qed
  have steady: "(\<forall>v. fst (clock v) = t) \<longrightarrow>
         (\<forall>b \<in> set bs.
            (b \<in> set (snd (views clock bs w))) = (t * 1000 > expirationMicros b)
            \<and> (b \<in> set (fst (views clock bs w))) = (\<not> t * 1000 > expirationMicros b))"
  proof
    assume s: "\<forall>v. fst (clock v) = t"
    show "\<forall>b \<in> set bs.
            (b \<in> set (snd (views clock bs w))) = (t * 1000 > expirationMicros b)
            \<and> (b \<in> set (fst (views clock bs w))) = (\<not> t * 1000 > expirationMicros b)"
      by (simp add: views_steady [OF s])
  qed
  show ?thesis
    by (intro conjI) (rule c e v tie steady)+
qed

text \<open>
  C3 at a concrete listing: the clock reads the millisecond at which one blob expires,
  one microsecond after the other has expired.
\<close>

theorem classified_by_strict_comparison_witness:
  "readings (fixedClock 1762131600000) 2 () = ([1762131600000, 1762131600000], ())
   \<and> expirationMicros tieBlob = 1762131600000 * 1000
   \<and> expirationMicros staleBlob < 1762131600000 * 1000
   \<and> currentBlobs (fixedClock 1762131600000) [tieBlob, staleBlob] () = ([tieBlob], ())
   \<and> expiredBlobs (fixedClock 1762131600000) [tieBlob, staleBlob] () = ([staleBlob], ())
   \<and> views (fixedClock 1762131600000) [tieBlob, staleBlob] () = ([tieBlob], [staleBlob])
   \<and> tieBlob \<in> set (fst (views (fixedClock 1762131600000) [tieBlob, staleBlob] ()))
   \<and> tieBlob \<notin> set (snd (views (fixedClock 1762131600000) [tieBlob, staleBlob] ()))
   \<and> staleBlob \<in> set (snd (views (fixedClock 1762131600000) [tieBlob, staleBlob] ()))"
proof -
  let ?clock = "fixedClock 1762131600000"
  let ?bs = "[tieBlob, staleBlob]"
  note t = classified_by_strict_comparison [of ?clock ?bs "()" 1762131600000]
  have r: "readings ?clock 2 () = ([1762131600000, 1762131600000], ())"
    by (simp add: fixedClock_def numeral_2_eq_2)
  have r': "readings ?clock (length ?bs) () = ([1762131600000, 1762131600000], ())"
    by (simp add: fixedClock_def)
  have h: "\<forall>v. fst (?clock v) = 1762131600000"
    by (simp add: fixedClock_def)
  have x: "expirationMicros tieBlob = 1762131600000 * 1000"
    "expirationMicros staleBlob < 1762131600000 * 1000"
    by (simp_all add: tieBlob_def staleBlob_def)
  have ne: "tieBlob \<noteq> staleBlob"
    by (simp add: tieBlob_def staleBlob_def)
  note t1 = t [THEN conjunct1]
  note t2 = t [THEN conjunct2, THEN conjunct1]
  note t3 = t [THEN conjunct2, THEN conjunct2, THEN conjunct1]
  note t5 = t [THEN conjunct2, THEN conjunct2, THEN conjunct2, THEN conjunct2]
  have c: "currentBlobs ?clock ?bs () = ([tieBlob], ())"
    using t1 unfolding r' by (simp add: tieBlob_def staleBlob_def)
  have e: "expiredBlobs ?clock ?bs () = ([staleBlob], ())"
    using t2 unfolding r' by (simp add: tieBlob_def staleBlob_def)
  have v: "views ?clock ?bs () = ([tieBlob], [staleBlob])"
    using t3 by (simp add: r' c e)
  from t5 h have "\<forall>b \<in> set ?bs.
      (b \<in> set (snd (views ?clock ?bs ()))) = (1762131600000 * 1000 > expirationMicros b)
      \<and> (b \<in> set (fst (views ?clock ?bs ()))) = (\<not> 1762131600000 * 1000 > expirationMicros b)"
    by (rule mp)
  then have m: "tieBlob \<in> set (fst (views ?clock ?bs ()))
      \<and> tieBlob \<notin> set (snd (views ?clock ?bs ()))
      \<and> staleBlob \<in> set (snd (views ?clock ?bs ()))"
    using x by simp
  show ?thesis
    by (intro conjI) (use r x c e v m in simp_all)
qed

text \<open>
  C3 as stated (a tie is classified as expired) fails: at the instant of its expiration the
  blob is not expired and is shown in the current view.
\<close>

theorem tie_classified_expired_counterexample:
  "expirationMicros tieBlob = 1762131600000 * 1000
   \<and> fst (isExpired (fixedClock 1762131600000) (expirationMicros tieBlob) ()) = False
   \<and> views (fixedClock 1762131600000) [tieBlob] () = ([tieBlob], [])"
  by (simp add: tieBlob_def isExpired_def fixedClock_def views_def currentBlobs_def
      expiredBlobs_def)

text \<open>
  C4: the two views partition the fetched blobs. The code reads the clock again for every
  blob and for each of the two filters. When the clock passes the expiration instant of a
  blob between the first filter and the second, the blob is in both views: here the first
  reading is the instant of expiration and the second is one millisecond later.
\<close>

theorem views_overlap_when_clock_advances:
  "views tickingClock [tieBlob] 1762131600000 = ([tieBlob], [tieBlob])"
  by (simp add: tieBlob_def isExpired_def tickingClock_def views_def currentBlobs_def
      expiredBlobs_def)

text \<open>With one reading of the clock for the whole render the views do partition the list.\<close>

lemma views_partition_steady:
  assumes "\<forall>v. fst (clock v) = t"
  shows "set (fst (views clock bs w)) \<union> set (snd (views clock bs w)) = set bs
       \<and> set (fst (views clock bs w)) \<inter> set (snd (views clock bs w)) = {}"
  by (auto simp: views_steady [OF assms])

text \<open>
  C6 as stated (a change of account clears the previous result at once) fails: the blobs
  fetched for one account stay in the listing when another account connects.
\<close>

theorem account_switch_keeps_result_counterexample:
  "blobs (effect (Some bob) \<lparr>blobs = [tieBlob], pending = []\<rparr>) = [tieBlob]
   \<and> blob_owner tieBlob = address alice \<and> address alice \<noteq> address bob"
  by (simp add: effect_def tieBlob_def alice_def bob_def js_def)

lemma listingAfter_snoc: "listingAfter (steps @ [x]) s = listingStep x (listingAfter steps s)"
  by (simp add: listingAfter_def)

lemma connected_effects_keep:
  "list_all isConnectedEffect steps \<Longrightarrow>
     blobs (listingAfter steps s) = blobs s
     \<and> pending (listingAfter steps s) = pending s @ concat (map connectedAddress steps)"
proof (induction steps rule: rev_induct)
  case Nil
  then show ?case by (simp add: listingAfter_def)
next
  case (snoc x xs)
  then obtain a where x: "x = Effect (Some a)"
    by (auto elim: isConnectedEffect.elims)
  with snoc show ?case
    by (simp add: listingAfter_snoc effect_def)
qed

text \<open>
  C6, as the code has it, after any history of the component: the listing is cleared at
  once when the account becomes absent. When the account changes to another connected
  account or a refresh is signalled, nothing is cleared: through any number of such changes
  the listing keeps what it showed, and each change starts one more fetch. Whenever a fetch
  in flight resolves, for the current account or for an earlier one, its result replaces
  the listing.
\<close>

theorem listing_kept_until_a_fetch_resolves:
  "blobs (listingAfter (steps @ [Effect None]) s) = []
   \<and> (list_all isConnectedEffect changes \<longrightarrow>
        blobs (listingAfter (steps @ changes) s) = blobs (listingAfter steps s)
        \<and> pending (listingAfter (steps @ changes) s)
            = pending (listingAfter steps s) @ concat (map connectedAddress changes))
   \<and> (i < length (pending (listingAfter steps s)) \<longrightarrow>
        blobs (listingAfter (steps @ [Resolved i result]) s) = result
        \<and> pending (listingAfter (steps @ [Resolved i result]) s)
            = take i (pending (listingAfter steps s)) @ drop (Suc i) (pending (listingAfter steps s)))
   \<and> (\<not> i < length (pending (listingAfter steps s)) \<longrightarrow>
        listingAfter (steps @ [Resolved i result]) s = listingAfter steps s)"
proof -
  have split: "listingAfter (steps @ changes) s = listingAfter changes (listingAfter steps s)"
    by (simp add: listingAfter_def)
  have 1: "blobs (listingAfter (steps @ [Effect None]) s) = []"
    by (simp add: listingAfter_snoc effect_def)
  have 2: "list_all isConnectedEffect changes \<longrightarrow>
        blobs (listingAfter (steps @ changes) s) = blobs (listingAfter steps s)
        \<and> pending (listingAfter (steps @ changes) s)
            = pending (listingAfter steps s) @ concat (map connectedAddress changes)"
    unfolding split using connected_effects_keep [of changes "listingAfter steps s"] by blast
  have 3: "i < length (pending (listingAfter steps s)) \<longrightarrow>
        blobs (listingAfter (steps @ [Resolved i result]) s) = result
        \<and> pending (listingAfter (steps @ [Resolved i result]) s)
            = take i (pending (listingAfter steps s)) @ drop (Suc i) (pending (listingAfter steps s))"
    by (simp add: listingAfter_snoc fetchResolved_def)
  have 4: "\<not> i < length (pending (listingAfter steps s)) \<longrightarrow>
        listingAfter (steps @ [Resolved i result]) s = listingAfter steps s"
    by (simp add: listingAfter_snoc fetchResolved_def)
  show ?thesis
    by (intro conjI) (rule 1 2 3 4)+
qed

text \<open>
  C6 at concrete histories: alice's blobs stay when bob connects; with both fetches in
  flight, bob's resolves first and the late fetch for alice then replaces bob's list.
\<close>

theorem listing_kept_until_a_fetch_resolves_witness:
  "blobs (listingAfter [Effect (Some alice), Resolved 0 [tieBlob], Effect None]
      \<lparr>blobs = [], pending = []\<rparr>) = []
   \<and> list_all isConnectedEffect [Effect (Some bob)]
   \<and> blobs (listingAfter [Effect (Some alice), Resolved 0 [tieBlob], Effect (Some bob)]
      \<lparr>blobs = [], pending = []\<rparr>) = [tieBlob]
   \<and> pending (listingAfter [Effect (Some alice), Resolved 0 [tieBlob], Effect (Some bob)]
      \<lparr>blobs = [], pending = []\<rparr>) = [address bob]
   \<and> pending (listingAfter [Effect (Some alice), Effect (Some bob)]
      \<lparr>blobs = [], pending = []\<rparr>) = [address alice, address bob]
   \<and> blobs (listingAfter [Effect (Some alice), Effect (Some bob), Resolved 1 [bobBlob]]
      \<lparr>blobs = [], pending = []\<rparr>) = [bobBlob]
   \<and> blobs (listingAfter
        [Effect (Some alice), Effect (Some bob), Resolved 1 [bobBlob], Resolved 0 [tieBlob]]
      \<lparr>blobs = [], pending = []\<rparr>) = [tieBlob]
   \<and> listingAfter
        [Effect (Some alice), Effect (Some bob), Resolved 1 [bobBlob], Resolved 0 [tieBlob],
         Resolved 0 [bobBlob]]
      \<lparr>blobs = [], pending = []\<rparr> = \<lparr>blobs = [tieBlob], pending = []\<rparr>"
proof -
  let ?s = "\<lparr>blobs = [], pending = []\<rparr>"
  note a = listing_kept_until_a_fetch_resolves
    [of "[Effect (Some alice), Resolved 0 [tieBlob]]" ?s "[Effect (Some bob)]" 0 "[]"]
  note b = listing_kept_until_a_fetch_resolves
    [of "[Effect (Some alice), Effect (Some bob)]" ?s "[]" 1 "[bobBlob]"]
  note c = listing_kept_until_a_fetch_resolves
    [of "[Effect (Some alice), Effect (Some bob), Resolved 1 [bobBlob]]" ?s "[]" 0 "[tieBlob]"]
  note d = listing_kept_until_a_fetch_resolves
    [of "[Effect (Some alice), Effect (Some bob), Resolved 1 [bobBlob], Resolved 0 [tieBlob]]"
      ?s "[]" 0 "[bobBlob]"]
  have h: "list_all isConnectedEffect [Effect (Some bob)]"
    by simp
  have p0: "listingAfter [Effect (Some alice), Resolved 0 [tieBlob]] ?s
      = \<lparr>blobs = [tieBlob], pending = []\<rparr>"
    by (simp add: listingAfter_def effect_def fetchResolved_def)
  have p1: "pending (listingAfter [Effect (Some alice), Effect (Some bob)] ?s)
      = [address alice, address bob]"
    by (simp add: listingAfter_def effect_def)
  have p2: "pending (listingAfter [Effect (Some alice), Effect (Some bob), Resolved 1 [bobBlob]] ?s)
      = [address alice]"
    by (simp add: listingAfter_def effect_def fetchResolved_def)
  have p3: "listingAfter
      [Effect (Some alice), Effect (Some bob), Resolved 1 [bobBlob], Resolved 0 [tieBlob]] ?s
      = \<lparr>blobs = [tieBlob], pending = []\<rparr>"
    by (simp add: listingAfter_def effect_def fetchResolved_def)
  from a have 1: "blobs (listingAfter [Effect (Some alice), Resolved 0 [tieBlob], Effect None] ?s)
      = []"
    by simp
  from a h have 2: "blobs (listingAfter [Effect (Some alice), Resolved 0 [tieBlob],
        Effect (Some bob)] ?s) = [tieBlob]
      \<and> pending (listingAfter [Effect (Some alice), Resolved 0 [tieBlob], Effect (Some bob)] ?s)
        = [address bob]"
    by (simp add: p0)
  from b p1 have 3: "blobs (listingAfter [Effect (Some alice), Effect (Some bob),
      Resolved 1 [bobBlob]] ?s) = [bobBlob]"
    by simp
  from c p2 have 4: "blobs (listingAfter
      [Effect (Some alice), Effect (Some bob), Resolved 1 [bobBlob], Resolved 0 [tieBlob]] ?s)
      = [tieBlob]"
    by simp
  from d p3 have 5: "listingAfter
      [Effect (Some alice), Effect (Some bob), Resolved 1 [bobBlob], Resolved 0 [tieBlob],
       Resolved 0 [bobBlob]] ?s = \<lparr>blobs = [tieBlob], pending = []\<rparr>"
    by simp
  show ?thesis
    by (intro conjI) (use 1 2 3 4 5 h p1 in simp_all)
qed

section \<open>The submitter and the upload sequencer\<close>

lemmas run_defs = submitFileToChain_def submitBody_def andThen_def call_def callSync_def ret_def
  eventsSince_def Let_def

lemmas upload_defs = uploadFile_def uploadBody_def encodeFile_def readClock_def reportSuccess_def

lemmas demo_defs = demoEnv_def idleHook_def idleUpload_def alice_def nativeWallet_def
  foreignWallet_def photo_def photoCommitment_def demoForm_def

lemmas string_defs = js_def sanitizeInput_def replaceEach_def stripEnds_def trim_def
  isWhiteSpace_def isFilenameChar_def isHyphen_def hyphen_def

lemma andThen_Inl: "m s = (Inl e, s1) \<Longrightarrow> andThen m f s = (Inl e, s1)"
  by (simp add: andThen_def)

lemma andThen_Inr: "m s = (Inr x, s1) \<Longrightarrow> andThen m f s = f x s1"
  by (simp add: andThen_def)

text \<open>What a run of the submitter adds to the log, and what it leaves alone.\<close>

lemma submit_outcome:
  fixes s :: "('w, ('p, 'r, 'a, 'k, 'v) event, 'z) upload_state_scheme"
  assumes "submitFileToChain env key (Some acc) (Some wal) c f e n k d s = (res, s')"
  shows "\<exists>T. trace s' = trace s @ T \<and> list_all (isSubmitterEvent e) T
           \<and> length (payloadExpirations T) \<le> 1
           \<and> ((payloadExpirations T = []) = failed (expectedTotalChunksets env (raw_data_size c)))
           \<and> (failed res = list_ex chainStepFailed T)
           \<and> (\<forall>h. res = Inr h \<longrightarrow> list_ex (finalized h) T)
           \<and> showSuccessDialog s' = showSuccessDialog s
           \<and> transactionHash s' = transactionHash s \<and> uploadedFileName s' = uploadedFileName s"
  using assms
  by (auto simp: run_defs finalized_def payloadExpirations_def
      split: sum.splits prod.splits if_splits)

lemma encode_summary:
  fixes s :: "('w, ('p, 'r, 'a, 'k, 'v) event, 'z) upload_state_scheme"
  assumes "encodeFile env fl n k d s = (res, s')"
  shows "\<exists>T. trace s' = trace s @ T \<and> list_all isEncodeEvent T
           \<and> showSuccessDialog s' = showSuccessDialog s
           \<and> transactionHash s' = transactionHash s \<and> uploadedFileName s' = uploadedFileName s"
  using assms
  by (auto simp: encodeFile_def andThen_def call_def ret_def Let_def split: sum.splits prod.splits)

lemma uploadFile_guard:
  "selectedFile form = None \<or> account = None \<or> wallet = None \<or> \<not> isFormValid form
    \<Longrightarrow> uploadFile env key account wallet form s = s"
  by (auto simp: uploadFile_def split: option.splits)

lemma uploadBody_cases [consumes 3, case_names EncodeFailed SubmitFailed UploadFailed Uploaded]:
  fixes s1 :: "('w, ('p, 'r, 'a, 'k, 'v) event, 'z) upload_state_scheme"
  assumes run: "uploadBody env key (Some acc) (Some wal) form sel s1 = (res, s2)"
    and F_def: "F = \<lparr>file_name = generateFileName form, file_type = file_type sel,
      file_bytes = file_bytes sel\<rparr>"
    and cfg_def: "cfg = (case find (\<lambda>opt. opt_value opt = redundancyLevel form)
      redundancyOptions of Some opt \<Rightarrow> opt | None \<Rightarrow> redundancyOptions ! 1)"
  obtains
    (EncodeFailed) Te where
      "failed res" "trace s2 = trace s1 @ Te" "list_all isEncodeEvent Te"
      "successFieldsKept s1 s2"
      "failed (fst (encodeFile env F (Some (opt_erasure_n cfg)) (Some (opt_erasure_k cfg))
         (Some (opt_erasure_d cfg)) s1))"
  | (SubmitFailed) Te t Ts commitments sa where
      "failed res" "trace s2 = trace s1 @ Te @ DateNow t # Ts" "list_all isEncodeEvent Te"
      "list_all (isSubmitterEvent (t * 1000 + duration form)) Ts"
      "length (payloadExpirations Ts) \<le> 1"
      "list_ex chainStepFailed Ts" "successFieldsKept s1 s2"
      "encodeFile env F (Some (opt_erasure_n cfg)) (Some (opt_erasure_k cfg))
         (Some (opt_erasure_d cfg)) s1 = (Inr commitments, sa)"
      "fst (dateNow env (world sa)) = t"
      "(payloadExpirations Ts = [])
         = failed (expectedTotalChunksets env (raw_data_size commitments))"
  | (UploadFailed) Te t Ts fl err commitments sa where
      "res = Inl err"
      "trace s2 = trace s1 @ Te @ DateNow t # Ts @ [UploadFileToRcp fl (Inl err)]"
      "list_all isEncodeEvent Te"
      "list_all (isSubmitterEvent (t * 1000 + duration form)) Ts"
      "length (payloadExpirations Ts) \<le> 1"
      "\<not> list_ex chainStepFailed Ts" "successFieldsKept s1 s2"
      "encodeFile env F (Some (opt_erasure_n cfg)) (Some (opt_erasure_k cfg))
         (Some (opt_erasure_d cfg)) s1 = (Inr commitments, sa)"
      "fst (dateNow env (world sa)) = t"
      "(payloadExpirations Ts = [])
         = failed (expectedTotalChunksets env (raw_data_size commitments))"
  | (Uploaded) Te t Ts fl post commitments sa where
      "trace s2 = trace s1 @ Te @ DateNow t # Ts @ UploadFileToRcp fl (Inr ())
         # SuccessDialog (transactionHash s2) (generateFileName form) # post"
      "list_all isEncodeEvent Te"
      "list_all (isSubmitterEvent (t * 1000 + duration form)) Ts"
      "length (payloadExpirations Ts) \<le> 1"
      "\<not> list_ex chainStepFailed Ts" "list_ex (finalized (transactionHash s2)) Ts"
      "list_all isSuccessReport post" "showSuccessDialog s2"
      "uploadedFileName s2 = generateFileName form"
      "encodeFile env F (Some (opt_erasure_n cfg)) (Some (opt_erasure_k cfg))
         (Some (opt_erasure_d cfg)) s1 = (Inr commitments, sa)"
      "fst (dateNow env (world sa)) = t"
      "(payloadExpirations Ts = [])
         = failed (expectedTotalChunksets env (raw_data_size commitments))"
proof -
  define N where "N = Some (opt_erasure_n cfg)"
  define K where "K = Some (opt_erasure_k cfg)"
  define D where "D = Some (opt_erasure_d cfg)"
  define finish where "finish = (\<lambda>txHash.
      andThen (call (uploadFileToRcp env F) (UploadFileToRcp F)) (\<lambda>_.
      andThen (reportSuccess txHash (generateFileName form)) (\<lambda>_.
      (case onUploadSuccess env of
         None \<Rightarrow> (ret () :: (('w, ('p, 'r, 'a, 'k, 'v) event, 'z) upload_state_scheme, unit) prog)
       | Some callback \<Rightarrow> call callback OnUploadSuccess))))"
  define register where "register = (\<lambda>commitments.
      andThen (readClock env) (\<lambda>now.
      andThen (submitFileToChain env key (Some acc) (Some wal) commitments F
                 (now * 1000 + duration form) N K D) finish))"
  have body: "uploadBody env key (Some acc) (Some wal) form sel
      = andThen (encodeFile env F N K D) register"
    by (simp add: uploadBody_def Let_def F_def cfg_def N_def K_def D_def finish_def register_def)
  obtain rc sa where enc: "encodeFile env F N K D s1 = (rc, sa)"
    by (cases "encodeFile env F N K D s1")
  from encode_summary [OF enc] obtain Te where
    te: "trace sa = trace s1 @ Te" "list_all isEncodeEvent Te" and
    ka: "successFieldsKept s1 sa"
    by (auto simp: successFieldsKept_def)
  show ?thesis
  proof (cases rc)
    case (Inl err)
    with run body enc have "res = Inl err" "s2 = sa"
      by (simp_all add: andThen_Inl)
    with te ka enc Inl show ?thesis
      by (intro EncodeFailed [of Te]) (simp_all add: N_def K_def D_def)
  next
    case (Inr commitments)
    obtain t w where clk: "dateNow env (world sa) = (t, w)"
      by (cases "dateNow env (world sa)")
    have pin: "encodeFile env F (Some (opt_erasure_n cfg)) (Some (opt_erasure_k cfg))
        (Some (opt_erasure_d cfg)) s1 = (Inr commitments, sa)"
      "fst (dateNow env (world sa)) = t"
      using enc Inr clk by (simp_all add: N_def K_def D_def)
    define sb where "sb = sa\<lparr>world := w, trace := trace sa @ [DateNow t]\<rparr>"
    have rd: "readClock env sa = (Inr t, sb)"
      by (simp add: readClock_def clk sb_def)
    obtain rs sc where sub: "submitFileToChain env key (Some acc) (Some wal) commitments F
        (t * 1000 + duration form) N K D sb = (rs, sc)"
      by (cases "submitFileToChain env key (Some acc) (Some wal) commitments F
        (t * 1000 + duration form) N K D sb")
    from submit_outcome [OF sub] obtain Ts where
      ts: "trace sc = trace sb @ Ts" "list_all (isSubmitterEvent (t * 1000 + duration form)) Ts"
        "failed rs = list_ex chainStepFailed Ts"
        "\<forall>h. rs = Inr h \<longrightarrow> list_ex (finalized h) Ts"
        "length (payloadExpirations Ts) \<le> 1"
        "(payloadExpirations Ts = [])
           = failed (expectedTotalChunksets env (raw_data_size commitments))" and
      kc: "successFieldsKept sb sc"
      by (auto simp: successFieldsKept_def)
    have kb: "successFieldsKept s1 sb"
      using ka by (simp add: successFieldsKept_def sb_def)
    have tc: "trace sc = trace s1 @ Te @ DateNow t # Ts"
      using ts(1) te(1) by (simp add: sb_def)
    have step: "uploadBody env key (Some acc) (Some wal) form sel s1
        = andThen (\<lambda>s. (rs, sc)) finish sb"
      using enc Inr rd sub by (simp add: body andThen_def register_def)
    show ?thesis
    proof (cases rs)
      case (Inl err)
      with run step have "res = Inl err" "s2 = sc"
        by (simp_all add: andThen_def)
      moreover from Inl ts(3) have "list_ex chainStepFailed Ts" by simp
      moreover from kb kc have "successFieldsKept s1 sc"
        by (simp add: successFieldsKept_def)
      ultimately show ?thesis
        using tc te(2) ts(2,5,6) pin by (intro SubmitFailed [of Te t Ts commitments sa]) simp_all
    next
      case (Inr h)
      with ts(3,4) have ok: "\<not> list_ex chainStepFailed Ts" "list_ex (finalized h) Ts"
        by simp_all
      obtain ru wu where upl: "uploadFileToRcp env F (world sc) = (ru, wu)"
        by (cases "uploadFileToRcp env F (world sc)")
      define sd where "sd = sc\<lparr>world := wu, trace := trace sc @ [UploadFileToRcp F ru]\<rparr>"
      have cu: "call (uploadFileToRcp env F) (UploadFileToRcp F) sc = (ru, sd)"
        by (simp add: call_def upl sd_def)
      show ?thesis
      proof (cases ru)
        case (Inl err)
        with run step Inr cu have "res = Inl err" "s2 = sd"
          by (simp_all add: andThen_def finish_def)
        moreover from kb kc have "successFieldsKept s1 sd"
          by (simp add: successFieldsKept_def sd_def)
        moreover have "trace sd = trace s1 @ Te @ DateNow t # Ts @ [UploadFileToRcp F (Inl err)]"
          using tc Inl by (simp add: sd_def)
        ultimately show ?thesis
          using te(2) ts(2,5,6) ok(1) pin
          by (intro UploadFailed [of err Te t Ts F commitments sa]) simp_all
      next
        case (Inr u)
        define se where "se = sd\<lparr>transactionHash := h,
          uploadedFileName := generateFileName form, showSuccessDialog := True,
          trace := trace sd @ [SuccessDialog h (generateFileName form)]\<rparr>"
        have tse: "trace se = trace s1 @ Te @ DateNow t # Ts @ [UploadFileToRcp F (Inr ()),
            SuccessDialog h (generateFileName form)]"
          using tc Inr by (simp add: se_def sd_def)
        have fin: "(res, s2) = (case onUploadSuccess env of
             None \<Rightarrow> (ret () :: (('w, ('p, 'r, 'a, 'k, 'v) event, 'z) upload_state_scheme, unit) prog)
           | Some callback \<Rightarrow> call callback OnUploadSuccess) se"
          using run step \<open>rs = Inr h\<close> cu Inr
          by (simp add: andThen_def finish_def reportSuccess_def se_def)
        have "\<exists>post. trace s2 = trace se @ post \<and> list_all isSuccessReport post
            \<and> transactionHash s2 = h \<and> showSuccessDialog s2
            \<and> uploadedFileName s2 = generateFileName form"
          using fin
          by (auto simp: ret_def call_def se_def split: option.splits prod.splits)
        then obtain post where
          "trace s2 = trace s1 @ Te @ DateNow t # Ts @ UploadFileToRcp F (Inr ())
             # SuccessDialog (transactionHash s2) (generateFileName form) # post"
          "list_all isSuccessReport post" "transactionHash s2 = h" "showSuccessDialog s2"
          "uploadedFileName s2 = generateFileName form"
          using tse by auto
        then show ?thesis
          using te(2) ts(2,5,6) ok pin
          by (intro Uploaded [of Te t Ts F post commitments sa]) simp_all
      qed
    qed
  qed
qed

lemma clockReadings_simps:
  "clockReadings [] = []"
  "clockReadings (ev # evs) = clockReading ev @ clockReadings evs"
  "clockReadings (xs @ ys) = clockReadings xs @ clockReadings ys"
  by (simp_all add: clockReadings_def)

lemma payloadExpirations_simps:
  "payloadExpirations [] = []"
  "payloadExpirations (ev # evs) = payloadExpiration ev @ payloadExpirations evs"
  "payloadExpirations (xs @ ys) = payloadExpirations xs @ payloadExpirations ys"
  by (simp_all add: payloadExpirations_def)

lemma encode_events:
  "list_all isEncodeEvent T \<Longrightarrow>
     \<not> list_ex chainStepFailed T \<and> \<not> list_ex isUpload T \<and> list_all (\<lambda>ev. \<not> isSuccessReport ev) T
     \<and> payloadExpirations T = [] \<and> clockReadings T = []"
  by (induction T)
    (auto simp: clockReadings_simps payloadExpirations_simps elim: isEncodeEvent.elims)

lemma submitter_events:
  "list_all (isSubmitterEvent e) T \<Longrightarrow>
     \<not> list_ex isUpload T \<and> list_all (\<lambda>ev. \<not> isSuccessReport ev) T
     \<and> set (payloadExpirations T) \<subseteq> {e} \<and> clockReadings T = []"
  by (induction T)
    (auto simp: clockReadings_simps payloadExpirations_simps elim: isSubmitterEvent.elims)

lemma report_events:
  "list_all isSuccessReport T \<Longrightarrow>
     \<not> list_ex chainStepFailed T \<and> \<not> list_ex isUpload T
     \<and> payloadExpirations T = [] \<and> clockReadings T = []"
  by (induction T)
    (auto simp: clockReadings_simps payloadExpirations_simps elim: isSuccessReport.elims)


text \<open>What one run of \<open>uploadFile\<close> adds to the log, and what it does to the success fields.\<close>

lemma uploadFile_cases [case_names Guard EncodeFailed SubmitFailed UploadFailed Uploaded]:
  fixes s :: "('w, ('p, 'r, 'a, 'k, 'v) event, 'z) upload_state_scheme"
  obtains
    (Guard) "uploadFile env key account wallet form s = s"
  | (EncodeFailed) Te err where
      "eventsSince s (uploadFile env key account wallet form s)
         = Te @ [ConsoleError err, Alert (uploadFailedMessage err)]"
      "list_all isEncodeEvent Te"
      "successFieldsKept s (uploadFile env key account wallet form s)"
  | (SubmitFailed) Te t Ts err where
      "eventsSince s (uploadFile env key account wallet form s)
         = Te @ DateNow t # Ts @ [ConsoleError err, Alert (uploadFailedMessage err)]"
      "list_all isEncodeEvent Te"
      "list_all (isSubmitterEvent (t * 1000 + duration form)) Ts"
      "length (payloadExpirations Ts) \<le> 1"
      "list_ex chainStepFailed Ts"
      "successFieldsKept s (uploadFile env key account wallet form s)"
  | (UploadFailed) Te t Ts fl err where
      "eventsSince s (uploadFile env key account wallet form s)
         = Te @ DateNow t # Ts @ [UploadFileToRcp fl (Inl err), ConsoleError err,
             Alert (uploadFailedMessage err)]"
      "list_all isEncodeEvent Te"
      "list_all (isSubmitterEvent (t * 1000 + duration form)) Ts"
      "length (payloadExpirations Ts) \<le> 1"
      "\<not> list_ex chainStepFailed Ts"
      "successFieldsKept s (uploadFile env key account wallet form s)"
  | (Uploaded) Te t Ts fl post rest where
      "eventsSince s (uploadFile env key account wallet form s)
         = Te @ DateNow t # Ts @ UploadFileToRcp fl (Inr ())
             # SuccessDialog (transactionHash (uploadFile env key account wallet form s))
                 (generateFileName form) # post @ rest"
      "list_all isEncodeEvent Te"
      "list_all (isSubmitterEvent (t * 1000 + duration form)) Ts"
      "length (payloadExpirations Ts) \<le> 1"
      "\<not> list_ex chainStepFailed Ts"
      "list_ex (finalized (transactionHash (uploadFile env key account wallet form s))) Ts"
      "list_all isSuccessReport post"
      "rest = [] \<or> (\<exists>err. rest = [ConsoleError err, Alert (uploadFailedMessage err)])"
      "showSuccessDialog (uploadFile env key account wallet form s)"
      "uploadedFileName (uploadFile env key account wallet form s) = generateFileName form"
proof (cases "selectedFile form = None \<or> account = None \<or> wallet = None \<or> \<not> isFormValid form")
  case True
  then have "uploadFile env key account wallet form s = s" by (rule uploadFile_guard)
  then show ?thesis by (rule Guard)
next
  case False
  then obtain sel acc wal where
    g: "selectedFile form = Some sel" "account = Some acc" "wallet = Some wal" "isFormValid form"
    by auto
  let ?s1 = "s\<lparr>isUploading := True\<rparr>"
  obtain res s2 where run: "uploadBody env key (Some acc) (Some wal) form sel ?s1 = (res, s2)"
    by (cases "uploadBody env key (Some acc) (Some wal) form sel ?s1")
  have fin: "uploadFile env key account wallet form s =
      (case res of
         Inr u \<Rightarrow> s2\<lparr>isUploading := False\<rparr>
       | Inl err \<Rightarrow> s2\<lparr>trace := trace s2 @ [ConsoleError err, Alert (uploadFailedMessage err)],
                       isUploading := False\<rparr>)"
    using g run by (simp add: uploadFile_def split: sum.splits)
  from run refl refl show ?thesis
  proof (cases rule: uploadBody_cases)
    case (EncodeFailed Te)
    then obtain err where "res = Inl err" by (cases res) auto
    with EncodeFailed(1-4) fin show ?thesis
      by (intro that(2) [of Te err]) (simp_all add: eventsSince_def successFieldsKept_def)
  next
    case (SubmitFailed Te t Ts)
    then obtain err where "res = Inl err" by (cases res) auto
    with SubmitFailed(1-7) fin show ?thesis
      by (intro that(3) [of Te t Ts err]) (simp_all add: eventsSince_def successFieldsKept_def)
  next
    case (UploadFailed Te t Ts fl err)
    with UploadFailed(1-7) fin show ?thesis
      by (intro that(4) [of Te t Ts fl err]) (simp_all add: eventsSince_def successFieldsKept_def)
  next
    case (Uploaded Te t Ts fl post)
    show ?thesis
    proof (cases res)
      case (Inl err)
      with Uploaded(1-9) fin show ?thesis
        by (intro that(5) [of Te t Ts fl post "[ConsoleError err, Alert (uploadFailedMessage err)]"])
          (simp_all add: eventsSince_def)
    next
      case (Inr u)
      with Uploaded(1-9) fin show ?thesis
        by (intro that(5) [of Te t Ts fl post "[]"]) (simp_all add: eventsSince_def)
    qed
  qed
qed

text \<open>
  C2: in every run of the upload sequencer, if a step of the chain submission fails (the
  payload, a signature, the submission or the wait for finality), the storage upload is not
  invoked, no success is reported and the success fields keep their values. Whenever
  success is reported (the dialog, the hash, the refresh of the listing), the calls before
  the first report include the wait that finalized the reported hash and a storage upload
  that succeeded.
\<close>

theorem no_upload_without_registration:
  "(list_ex chainStepFailed (eventsSince s (uploadFile env key account wallet form s)) \<longrightarrow>
      \<not> list_ex isUpload (eventsSince s (uploadFile env key account wallet form s))
      \<and> \<not> list_ex isSuccessReport (eventsSince s (uploadFile env key account wallet form s))
      \<and> successFieldsKept s (uploadFile env key account wallet form s))
   \<and> (list_ex isSuccessReport (eventsSince s (uploadFile env key account wallet form s))
        \<or> \<not> successFieldsKept s (uploadFile env key account wallet form s) \<longrightarrow>
      list_ex (finalized (transactionHash (uploadFile env key account wallet form s)))
        (takeWhile (\<lambda>ev. \<not> isSuccessReport ev)
           (eventsSince s (uploadFile env key account wallet form s)))
      \<and> list_ex uploadSucceeded
        (takeWhile (\<lambda>ev. \<not> isSuccessReport ev)
           (eventsSince s (uploadFile env key account wallet form s))))"
proof (cases rule: uploadFile_cases [of env key account wallet form s])
  case Guard
  then show ?thesis by (simp add: eventsSince_def successFieldsKept_def)
next
  case (EncodeFailed Te err)
  with encode_events [of Te] show ?thesis
    by (auto simp: list_ex_iff list_all_iff)
next
  case (SubmitFailed Te t Ts err)
  with encode_events [of Te] submitter_events [of "t * 1000 + duration form" Ts] show ?thesis
    by (auto simp: list_ex_iff list_all_iff)
next
  case (UploadFailed Te t Ts fl err)
  with encode_events [of Te] submitter_events [of "t * 1000 + duration form" Ts] show ?thesis
    by (auto simp: list_ex_iff list_all_iff)
next
  case (Uploaded Te t Ts fl post rest)
  let ?h = "transactionHash (uploadFile env key account wallet form s)"
  let ?T = "eventsSince s (uploadFile env key account wallet form s)"
  let ?pre = "Te @ DateNow t # Ts @ [UploadFileToRcp fl (Inr ())]"
  have quiet: "\<forall>ev\<in>set ?pre. \<not> isSuccessReport ev"
    using Uploaded(2,3) encode_events [of Te] submitter_events [of "t * 1000 + duration form" Ts]
    by (auto simp: list_all_iff)
  have "?T = ?pre @ SuccessDialog ?h (generateFileName form) # post @ rest"
    using Uploaded(1) by simp
  then have tw: "takeWhile (\<lambda>ev. \<not> isSuccessReport ev) ?T = ?pre"
    using quiet by (simp only: takeWhile_append2) simp
  have nofail: "\<not> list_ex chainStepFailed ?T"
    using Uploaded encode_events [of Te] report_events [of post]
    by (auto simp: list_ex_iff)
  have "list_ex (finalized ?h) ?pre" "list_ex uploadSucceeded ?pre"
    using Uploaded(6) by (auto simp: list_ex_iff)
  with tw nofail show ?thesis by simp
qed




section \<open>Concrete runs\<close>

text \<open>The durations of the picker are counts of microseconds; the default is one day.\<close>

lemma durationOptions_microseconds:
  "map snd durationOptions
     = [60000000, 3600000000, 86400000000, 604800000000, 2592000000000, 31536000000000]"
  "(js ''1 day'', duration demoForm) \<in> set durationOptions"
  by (simp_all add: durationOptions_def demoForm_def)

lemma demo_fileName: "generateFileName demoForm = js ''New-York_2025-11-03_7.jpg''"
  by (simp add: generateFileName_def getFileExtension_def demo_defs string_defs)

lemma demo_formValid: "isFormValid demoForm"
  by (simp add: isFormValid_def demo_defs string_defs)

lemma demo_fields:
  "selectedFile demoForm = Some photo" "duration demoForm = 86400000000"
  "redundancyLevel demoForm = js ''standard''"
  by (simp_all add: demoForm_def)

lemma demo_config:
  "find (\<lambda>opt. opt_value opt = js ''standard'') redundancyOptions
     = Some \<lparr>opt_value = js ''standard'', opt_erasure_n = 16, opt_erasure_k = 10,
         opt_erasure_d = 13\<rparr>"
  by (simp add: redundancyOptions_def js_def)

lemmas eval_defs = uploadFile_def uploadBody_def encodeFile_def readClock_def reportSuccess_def
  submitFileToChain_def submitBody_def andThen_def call_def callSync_def ret_def
  eventsSince_def Let_def truthy_def errorMessage_def uploadFailedMessage_def
  demo_fileName demo_formValid demo_fields demo_config
  demoEnv_def idleUpload_def idleHook_def alice_def nativeWallet_def foreignWallet_def photo_def
  photoCommitment_def

text \<open>The wallet of a foreign chain refuses to sign: the submission is aborted.\<close>

lemma rejected_submission:
  "submitFileToChain (demoEnv False True) (Some (js ''0x5ec'')) (Some alice) (Some foreignWallet)
     photoCommitment photo 1762218000000000 None None None idleHook
   = (Inl (Error (js ''User rejected the request'')),
      \<lparr>world = 2,
       trace =
         [ExpectedTotalChunksets 3 (Inr 1),
          CreateRegisterBlobPayload
            \<lparr>arg_account = js ''0xa11ce'', arg_blobName = js ''a.jpg'',
             arg_blobMerkleRoot = js ''0xroot'', arg_numChunksets = 1,
             arg_expirationMicros = 1762218000000000, arg_blobSize = 3\<rparr>
            (Inr \<lparr>arg_account = js ''0xa11ce'', arg_blobName = js ''a.jpg'',
               arg_blobMerkleRoot = js ''0xroot'', arg_numChunksets = 1,
               arg_expirationMicros = 1762218000000000, arg_blobSize = 3\<rparr>),
          AccountFromPrivateKey (Some (js ''0x5ec'')) (Inr (js ''0x5ec'')),
          BuildSimple (js ''0xa11ce'')
            \<lparr>arg_account = js ''0xa11ce'', arg_blobName = js ''a.jpg'',
             arg_blobMerkleRoot = js ''0xroot'', arg_numChunksets = 1,
             arg_expirationMicros = 1762218000000000, arg_blobSize = 3\<rparr>
            True (Inr 0),
          SignTransaction 0 (Inl (Error (js ''User rejected the request'')))],
       isSubmitting = False, error = Some (js ''User rejected the request'')\<rparr>)"
  by (simp add: eval_defs)

lemma sponsored_submission:
  "submitFileToChain (demoEnv True True) (Some (js ''0x5ec'')) (Some alice) (Some foreignWallet)
     photoCommitment photo 1762218000000000 None None None idleHook
   = (Inr (js ''0xb2''),
      \<lparr>world = 4,
       trace =
         [ExpectedTotalChunksets 3 (Inr 1),
          CreateRegisterBlobPayload
            \<lparr>arg_account = js ''0xa11ce'', arg_blobName = js ''a.jpg'',
             arg_blobMerkleRoot = js ''0xroot'', arg_numChunksets = 1,
             arg_expirationMicros = 1762218000000000, arg_blobSize = 3\<rparr>
            (Inr \<lparr>arg_account = js ''0xa11ce'', arg_blobName = js ''a.jpg'',
               arg_blobMerkleRoot = js ''0xroot'', arg_numChunksets = 1,
               arg_expirationMicros = 1762218000000000, arg_blobSize = 3\<rparr>),
          AccountFromPrivateKey (Some (js ''0x5ec'')) (Inr (js ''0x5ec'')),
          BuildSimple (js ''0xa11ce'')
            \<lparr>arg_account = js ''0xa11ce'', arg_blobName = js ''a.jpg'',
             arg_blobMerkleRoot = js ''0xroot'', arg_numChunksets = 1,
             arg_expirationMicros = 1762218000000000, arg_blobSize = 3\<rparr>
            True (Inr 0),
          SignTransaction 0 (Inr (js ''sender'', 0)),
          SignAsFeePayer (js ''0x5ec'') 0 (Inr (js ''0x5ec'', 0)),
          SubmitSimple 0 (js ''sender'', 0) (js ''0x5ec'', 0) (Inr (js ''0xb2'')),
          ShelbyWaitForTransaction (js ''0xb2'') (Inr ())],
       isSubmitting = False, error = None\<rparr>)"
  by (simp add: eval_defs)

lemma native_submission:
  "submitFileToChain (demoEnv True True) key (Some alice) (Some nativeWallet)
     photoCommitment photo 1762218000000000 None None None idleHook
   = (Inr (js ''0xa1''),
      \<lparr>world = 2,
       trace =
         [ExpectedTotalChunksets 3 (Inr 1),
          CreateRegisterBlobPayload
            \<lparr>arg_account = js ''0xa11ce'', arg_blobName = js ''a.jpg'',
             arg_blobMerkleRoot = js ''0xroot'', arg_numChunksets = 1,
             arg_expirationMicros = 1762218000000000, arg_blobSize = 3\<rparr>
            (Inr \<lparr>arg_account = js ''0xa11ce'', arg_blobName = js ''a.jpg'',
               arg_blobMerkleRoot = js ''0xroot'', arg_numChunksets = 1,
               arg_expirationMicros = 1762218000000000, arg_blobSize = 3\<rparr>),
          SignAndSubmitTransaction
            \<lparr>arg_account = js ''0xa11ce'', arg_blobName = js ''a.jpg'',
             arg_blobMerkleRoot = js ''0xroot'', arg_numChunksets = 1,
             arg_expirationMicros = 1762218000000000, arg_blobSize = 3\<rparr>
            (Inr (js ''0xa1'')),
          AptosWaitForTransaction (js ''0xa1'') (Inr ())],
       isSubmitting = False, error = None\<rparr>)"
  by (simp add: eval_defs)

lemma idleHook_trace: "trace idleHook = []" "world idleHook = 0"
  "error idleHook = Some (js ''earlier failure'')" "isSubmitting idleHook = False"
  by (simp_all add: idleHook_def)

text \<open>
  C1, as the code has it: on the path of a wallet that is not native, a submission builds
  at most one raw transaction and submits at most once; every authorization it asks for
  (the detached signature of the wallet, the signature of the fee payer) is over the raw
  transaction that this one build returned; a submission carries that raw transaction and
  the two authorizations computed over it. When the submission returns a hash, its calls
  are exactly: one build, the signature of the wallet and the signature of the fee payer
  over the built transaction with no call between them, one submission with both, and the
  wait for finality. When a step before the submission throws (the payload, the sponsor
  account, the build or one of the two signatures), nothing is submitted and the
  submission fails; no call follows a call that threw.
\<close>

theorem sponsored_path_single_transaction:
  assumes "\<not> isAptosNativeWallet wal"
    and "submitFileToChain env key (Some acc) (Some wal) c f e n k d s = (res, s')"
  shows "length (builds (eventsSince s s')) \<le> 1
       \<and> length (submissions (eventsSince s s')) \<le> 1
       \<and> (\<forall>r \<in> set (authorizedObjects (eventsSince s s')). builds (eventsSince s s') = [Inr r])
       \<and> (\<forall>(r, sa, fa) \<in> set (submissions (eventsSince s s')).
            builds (eventsSince s s') = [Inr r]
            \<and> SignTransaction r (Inr sa) \<in> set (eventsSince s s')
            \<and> (\<exists>sp. SignAsFeePayer sp r (Inr fa) \<in> set (eventsSince s s')))
       \<and> (\<forall>h. res = Inr h \<longrightarrow>
            (\<exists>cs p sp r sa fa. eventsSince s s' =
               [ExpectedTotalChunksets (raw_data_size c) (Inr cs),
                CreateRegisterBlobPayload
                  \<lparr>arg_account = address acc, arg_blobName = file_name f,
                   arg_blobMerkleRoot = blob_merkle_root c, arg_numChunksets = cs,
                   arg_expirationMicros = e, arg_blobSize = raw_data_size c\<rparr> (Inr p),
                AccountFromPrivateKey key (Inr sp),
                BuildSimple (address acc) p True (Inr r),
                SignTransaction r (Inr sa),
                SignAsFeePayer sp r (Inr fa),
                SubmitSimple r sa fa (Inr h),
                ShelbyWaitForTransaction h (Inr ())]))
       \<and> (list_ex failedBeforeSubmit (eventsSince s s') \<longrightarrow>
            submissions (eventsSince s s') = [] \<and> failed res)
       \<and> \<not> list_ex chainStepFailed (butlast (eventsSince s s'))
       \<and> length (authorizedObjects (eventsSince s s')) \<le> 2"
proof -
  let ?T = "eventsSince s s'"
  have 1: "length (builds ?T) \<le> 1 \<and> length (submissions ?T) \<le> 1"
    using assms
    by (auto simp: run_defs builds_def submissions_def split: sum.splits prod.splits)
  have 2: "\<forall>r \<in> set (authorizedObjects ?T). builds ?T = [Inr r]"
    using assms
    by (auto simp: run_defs builds_def authorizedObjects_def split: sum.splits prod.splits)
  have 3: "\<forall>(r, sa, fa) \<in> set (submissions ?T).
      builds ?T = [Inr r] \<and> SignTransaction r (Inr sa) \<in> set ?T
      \<and> (\<exists>sp. SignAsFeePayer sp r (Inr fa) \<in> set ?T)"
    using assms
    by (auto simp: run_defs builds_def submissions_def split: sum.splits prod.splits)
  have 4: "\<forall>h. res = Inr h \<longrightarrow>
      (\<exists>cs p sp r sa fa. ?T =
         [ExpectedTotalChunksets (raw_data_size c) (Inr cs),
          CreateRegisterBlobPayload
            \<lparr>arg_account = address acc, arg_blobName = file_name f,
             arg_blobMerkleRoot = blob_merkle_root c, arg_numChunksets = cs,
             arg_expirationMicros = e, arg_blobSize = raw_data_size c\<rparr> (Inr p),
          AccountFromPrivateKey key (Inr sp),
          BuildSimple (address acc) p True (Inr r),
          SignTransaction r (Inr sa),
          SignAsFeePayer sp r (Inr fa),
          SubmitSimple r sa fa (Inr h),
          ShelbyWaitForTransaction h (Inr ())])"
    using assms
    by (auto simp: run_defs split: sum.splits prod.splits)
  have 5: "list_ex failedBeforeSubmit ?T \<longrightarrow> submissions ?T = [] \<and> failed res"
    using assms
    by (auto simp: run_defs submissions_def split: sum.splits prod.splits)
  have 6: "\<not> list_ex chainStepFailed (butlast ?T)"
    using assms
    by (auto simp: run_defs split: sum.splits prod.splits)
  have 7: "length (authorizedObjects ?T) \<le> 2"
    using assms
    by (auto simp: run_defs authorizedObjects_def split: sum.splits prod.splits)
  from 1 have one_build: "length (builds ?T) \<le> 1"
    and one_submit: "length (submissions ?T) \<le> 1"
    by simp_all
  show ?thesis
    by (intro conjI) (rule one_build one_submit 2 3 4 5 6 7)+
qed

text \<open>
  C1 at a concrete run that returns a hash: one raw transaction (the object \<open>0\<close>), two
  authorizations over it, one submission with both.
\<close>

theorem sponsored_path_single_transaction_witness:
  "\<not> isAptosNativeWallet foreignWallet
   \<and> fst (submitFileToChain (demoEnv True True) (Some (js ''0x5ec'')) (Some alice)
        (Some foreignWallet) photoCommitment photo 1762218000000000 None None None idleHook)
      = Inr (js ''0xb2'')
   \<and> builds (eventsSince idleHook
        (snd (submitFileToChain (demoEnv True True) (Some (js ''0x5ec'')) (Some alice)
          (Some foreignWallet) photoCommitment photo 1762218000000000 None None None idleHook)))
      = [Inr 0]
   \<and> authorizedObjects (eventsSince idleHook
        (snd (submitFileToChain (demoEnv True True) (Some (js ''0x5ec'')) (Some alice)
          (Some foreignWallet) photoCommitment photo 1762218000000000 None None None idleHook)))
      = [0, 0]
   \<and> submissions (eventsSince idleHook
        (snd (submitFileToChain (demoEnv True True) (Some (js ''0x5ec'')) (Some alice)
          (Some foreignWallet) photoCommitment photo 1762218000000000 None None None idleHook)))
      = [(0, (js ''sender'', 0), (js ''0x5ec'', 0))]
   \<and> list_ex failedBeforeSubmit (eventsSince idleHook
        (snd (submitFileToChain (demoEnv False True) (Some (js ''0x5ec'')) (Some alice)
          (Some foreignWallet) photoCommitment photo 1762218000000000 None None None idleHook)))
   \<and> submissions (eventsSince idleHook
        (snd (submitFileToChain (demoEnv False True) (Some (js ''0x5ec'')) (Some alice)
          (Some foreignWallet) photoCommitment photo 1762218000000000 None None None idleHook)))
      = []
   \<and> failed (fst (submitFileToChain (demoEnv False True) (Some (js ''0x5ec'')) (Some alice)
        (Some foreignWallet) photoCommitment photo 1762218000000000 None None None idleHook))"
proof -
  let ?rej = "submitFileToChain (demoEnv False True) (Some (js ''0x5ec'')) (Some alice)
      (Some foreignWallet) photoCommitment photo 1762218000000000 None None None idleHook"
  have h: "\<not> isAptosNativeWallet foreignWallet"
    by (simp add: foreignWallet_def)
  note t = sponsored_path_single_transaction [OF h sponsored_submission]
  have ok: "fst (submitFileToChain (demoEnv True True) (Some (js ''0x5ec'')) (Some alice)
        (Some foreignWallet) photoCommitment photo 1762218000000000 None None None idleHook)
      = Inr (js ''0xb2'')
   \<and> builds (eventsSince idleHook
        (snd (submitFileToChain (demoEnv True True) (Some (js ''0x5ec'')) (Some alice)
          (Some foreignWallet) photoCommitment photo 1762218000000000 None None None idleHook)))
      = [Inr 0]
   \<and> authorizedObjects (eventsSince idleHook
        (snd (submitFileToChain (demoEnv True True) (Some (js ''0x5ec'')) (Some alice)
          (Some foreignWallet) photoCommitment photo 1762218000000000 None None None idleHook)))
      = [0, 0]
   \<and> submissions (eventsSince idleHook
        (snd (submitFileToChain (demoEnv True True) (Some (js ''0x5ec'')) (Some alice)
          (Some foreignWallet) photoCommitment photo 1762218000000000 None None None idleHook)))
      = [(0, (js ''sender'', 0), (js ''0x5ec'', 0))]"
    using t
    by (simp add: sponsored_submission eventsSince_def idleHook_trace builds_def
        authorizedObjects_def submissions_def)
  have run: "?rej = (fst ?rej, snd ?rej)"
    by simp
  note u = sponsored_path_single_transaction [OF h run]
  have f: "list_ex failedBeforeSubmit (eventsSince idleHook (snd ?rej))"
    by (simp add: rejected_submission eventsSince_def idleHook_trace)
  from u f have "submissions (eventsSince idleHook (snd ?rej)) = [] \<and> failed (fst ?rej)"
    by blast
  with h ok f show ?thesis
    by blast
qed

text \<open>
  C1 as stated (every submission on this path submits the raw transaction exactly once,
  with both authorizations) fails when a step before the submission fails: the wallet
  refuses to sign, the fee payer never signs, and nothing is submitted.
\<close>

theorem wallet_refusal_submits_nothing_counterexample:
  "\<not> isAptosNativeWallet foreignWallet
   \<and> fst (submitFileToChain (demoEnv False True) (Some (js ''0x5ec'')) (Some alice)
        (Some foreignWallet) photoCommitment photo 1762218000000000 None None None idleHook)
      = Inl (Error (js ''User rejected the request''))
   \<and> builds (eventsSince idleHook
        (snd (submitFileToChain (demoEnv False True) (Some (js ''0x5ec'')) (Some alice)
          (Some foreignWallet) photoCommitment photo 1762218000000000 None None None idleHook)))
      = [Inr 0]
   \<and> authorizedObjects (eventsSince idleHook
        (snd (submitFileToChain (demoEnv False True) (Some (js ''0x5ec'')) (Some alice)
          (Some foreignWallet) photoCommitment photo 1762218000000000 None None None idleHook)))
      = [0]
   \<and> submissions (eventsSince idleHook
        (snd (submitFileToChain (demoEnv False True) (Some (js ''0x5ec'')) (Some alice)
          (Some foreignWallet) photoCommitment photo 1762218000000000 None None None idleHook)))
      = []"
proof -
  have h: "\<not> isAptosNativeWallet foreignWallet"
    by (simp add: foreignWallet_def)
  show ?thesis
    using h
    by (simp add: rejected_submission eventsSince_def idleHook_trace builds_def
        authorizedObjects_def submissions_def)
qed

text \<open>
  C5: when the wallet reports native submission, the submitter does not construct the
  sponsor account and asks for no detached authorization, and the whole outcome (the hash
  or the error, the state, the log of calls) is the same for any two sponsor credentials.
\<close>

theorem native_path_ignores_sponsor:
  assumes "isAptosNativeWallet wal"
  shows "submitFileToChain env key1 account (Some wal) c f e n k d s =
         submitFileToChain env key2 account (Some wal) c f e n k d s
       \<and> \<not> list_ex isSponsorConstruction
            (eventsSince s (snd (submitFileToChain env key1 account (Some wal) c f e n k d s)))
       \<and> \<not> list_ex isDetachedAuthorization
            (eventsSince s (snd (submitFileToChain env key1 account (Some wal) c f e n k d s)))"
  using assms
  by (auto simp: run_defs split: sum.splits prod.splits option.splits)

text \<open>C5 at a concrete run, with a credential and without one.\<close>

theorem native_path_ignores_sponsor_witness:
  "isAptosNativeWallet nativeWallet
   \<and> submitFileToChain (demoEnv True True) (Some (js ''0x5ec'')) (Some alice) (Some nativeWallet)
       photoCommitment photo 1762218000000000 None None None idleHook
     = submitFileToChain (demoEnv True True) None (Some alice) (Some nativeWallet)
       photoCommitment photo 1762218000000000 None None None idleHook
   \<and> fst (submitFileToChain (demoEnv True True) (Some (js ''0x5ec'')) (Some alice)
        (Some nativeWallet) photoCommitment photo 1762218000000000 None None None idleHook)
     = Inr (js ''0xa1'')
   \<and> \<not> list_ex isSponsorConstruction (eventsSince idleHook
        (snd (submitFileToChain (demoEnv True True) (Some (js ''0x5ec'')) (Some alice)
          (Some nativeWallet) photoCommitment photo 1762218000000000 None None None idleHook)))
   \<and> \<not> list_ex isDetachedAuthorization (eventsSince idleHook
        (snd (submitFileToChain (demoEnv True True) (Some (js ''0x5ec'')) (Some alice)
          (Some nativeWallet) photoCommitment photo 1762218000000000 None None None idleHook)))"
proof -
  have h: "isAptosNativeWallet nativeWallet"
    by (simp add: nativeWallet_def)
  note t = native_path_ignores_sponsor [OF h, of "demoEnv True True" "Some (js ''0x5ec'')"
      "Some alice" photoCommitment photo 1762218000000000 None None None idleHook None]
  have r: "fst (submitFileToChain (demoEnv True True) (Some (js ''0x5ec'')) (Some alice)
        (Some nativeWallet) photoCommitment photo 1762218000000000 None None None idleHook)
     = Inr (js ''0xa1'')"
    by (simp add: native_submission)
  from h t r show ?thesis by blast
qed

text \<open>
  C9: called while the account or the wallet is absent, \<open>submitFileToChain\<close> throws and
  leaves the whole state as it was, so \<open>isSubmitting\<close> and \<open>error\<close> keep their values; any
  other failure stores the message of the error in \<open>error\<close> and resets \<open>isSubmitting\<close>.
\<close>

theorem absent_account_or_wallet_leaves_state:
  "(account = None \<or> wallet = None \<longrightarrow>
      submitFileToChain env key account wallet c f e n k d s =
        (Inl (Error (js ''Account and wallet are required'')), s))
   \<and> (\<forall>err s'. account \<noteq> None \<and> wallet \<noteq> None
        \<and> submitFileToChain env key account wallet c f e n k d s = (Inl err, s') \<longrightarrow>
         error s' = Some (errorMessage err) \<and> isSubmitting s' = False)"
  by (auto simp: submitFileToChain_def Let_def split: sum.splits prod.splits option.splits)

text \<open>
  C9 at concrete runs: without an account the flag stays set and the earlier message stays;
  after a refusal of the wallet the message is the wallet's and the flag is reset.
\<close>

theorem absent_account_or_wallet_leaves_state_witness:
  "submitFileToChain (demoEnv True True) (Some (js ''0x5ec'')) None (Some nativeWallet)
       photoCommitment photo 1762218000000000 None None None
       (idleHook\<lparr>isSubmitting := True\<rparr>)
     = (Inl (Error (js ''Account and wallet are required'')), idleHook\<lparr>isSubmitting := True\<rparr>)
   \<and> isSubmitting (idleHook\<lparr>isSubmitting := True\<rparr>)
   \<and> error (idleHook\<lparr>isSubmitting := True\<rparr>) = Some (js ''earlier failure'')
   \<and> fst (submitFileToChain (demoEnv False True) (Some (js ''0x5ec'')) (Some alice)
        (Some foreignWallet) photoCommitment photo 1762218000000000 None None None idleHook)
     = Inl (Error (js ''User rejected the request''))
   \<and> error (snd (submitFileToChain (demoEnv False True) (Some (js ''0x5ec'')) (Some alice)
        (Some foreignWallet) photoCommitment photo 1762218000000000 None None None idleHook))
     = Some (js ''User rejected the request'')
   \<and> isSubmitting (snd (submitFileToChain (demoEnv False True) (Some (js ''0x5ec''))
        (Some alice) (Some foreignWallet) photoCommitment photo 1762218000000000
        None None None idleHook)) = False"
proof -
  have a: "(None :: AccountInfo option) = None \<or> Some nativeWallet = None"
    by simp
  note t1 = absent_account_or_wallet_leaves_state [of None "Some nativeWallet"
      "demoEnv True True" "Some (js ''0x5ec'')" photoCommitment photo 1762218000000000
      None None None "idleHook\<lparr>isSubmitting := True\<rparr>"]
  note t2 = absent_account_or_wallet_leaves_state [of "Some alice" "Some foreignWallet"
      "demoEnv False True" "Some (js ''0x5ec'')" photoCommitment photo 1762218000000000
      None None None idleHook]
  have b: "isSubmitting (idleHook\<lparr>isSubmitting := True\<rparr>)
      \<and> error (idleHook\<lparr>isSubmitting := True\<rparr>) = Some (js ''earlier failure'')"
    by (simp add: idleHook_def)
  from t1 a have 1: "submitFileToChain (demoEnv True True) (Some (js ''0x5ec'')) None
       (Some nativeWallet) photoCommitment photo 1762218000000000 None None None
       (idleHook\<lparr>isSubmitting := True\<rparr>)
     = (Inl (Error (js ''Account and wallet are required'')), idleHook\<lparr>isSubmitting := True\<rparr>)"
    by blast
  from t2 rejected_submission
  have 2: "error (snd (submitFileToChain (demoEnv False True) (Some (js ''0x5ec'')) (Some alice)
        (Some foreignWallet) photoCommitment photo 1762218000000000 None None None idleHook))
     = Some (errorMessage (Error (js ''User rejected the request'')))
    \<and> isSubmitting (snd (submitFileToChain (demoEnv False True) (Some (js ''0x5ec''))
        (Some alice) (Some foreignWallet) photoCommitment photo 1762218000000000
        None None None idleHook)) = False"
    by simp
  have 3: "fst (submitFileToChain (demoEnv False True) (Some (js ''0x5ec'')) (Some alice)
        (Some foreignWallet) photoCommitment photo 1762218000000000 None None None idleHook)
     = Inl (Error (js ''User rejected the request''))"
    by (simp add: rejected_submission)
  from 1 2 3 b show ?thesis by (simp add: errorMessage_def)
qed

text \<open>
  C7, with the payload builder modelled from the spec: when the size is negative, the name
  is empty or the expiration instant is not after now, the submission fails (with the
  validation error, unless the chunkset count already threw) before any call to the wallet,
  the chain or the storage network, and the world is left as it was.
\<close>

theorem invalid_registration_fails_before_network:
  assumes "createRegisterBlobPayload env = createRegisterBlobPayload_spec now"
    and "raw_data_size c < 0 \<or> file_name f = [] \<or> e \<le> now"
    and "submitFileToChain env key (Some acc) (Some wal) c f e n k d s = (res, s')"
  shows "failed res
       \<and> (res = Inl validationError \<or> failed (expectedTotalChunksets env (raw_data_size c)))
       \<and> \<not> list_ex isNetworkCall (eventsSince s s')
       \<and> world s' = world s"
  using assms
  by (auto simp: submitFileToChain_def submitBody_def andThen_def callSync_def eventsSince_def
      Let_def createRegisterBlobPayload_spec_def split: sum.splits prod.splits)

text \<open>C7 at a concrete run: a file with an empty name.\<close>

theorem invalid_registration_fails_before_network_witness:
  "createRegisterBlobPayload validatingEnv = createRegisterBlobPayload_spec 1762131600000000
   \<and> file_name unnamedPhoto = []
   \<and> fst (submitFileToChain validatingEnv (Some (js ''0x5ec'')) (Some alice) (Some nativeWallet)
        photoCommitment unnamedPhoto 1762218000000000 None None None idleHook)
     = Inl validationError
   \<and> \<not> list_ex isNetworkCall (eventsSince idleHook
        (snd (submitFileToChain validatingEnv (Some (js ''0x5ec'')) (Some alice)
          (Some nativeWallet) photoCommitment unnamedPhoto 1762218000000000
          None None None idleHook)))
   \<and> world (snd (submitFileToChain validatingEnv (Some (js ''0x5ec'')) (Some alice)
        (Some nativeWallet) photoCommitment unnamedPhoto 1762218000000000
        None None None idleHook)) = 0"
proof -
  let ?run = "submitFileToChain validatingEnv (Some (js ''0x5ec'')) (Some alice)
      (Some nativeWallet) photoCommitment unnamedPhoto 1762218000000000 None None None idleHook"
  have h1: "createRegisterBlobPayload validatingEnv
      = createRegisterBlobPayload_spec 1762131600000000"
    by (simp add: validatingEnv_def)
  have h2: "file_name unnamedPhoto = []"
    by (simp add: unnamedPhoto_def)
  then have h2': "raw_data_size photoCommitment < 0 \<or> file_name unnamedPhoto = []
      \<or> 1762218000000000 \<le> (1762131600000000 :: int)"
    by simp
  have h3: "?run = (fst ?run, snd ?run)"
    by simp
  note t = invalid_registration_fails_before_network [OF h1 h2' h3]
  have ok: "\<not> failed (expectedTotalChunksets validatingEnv (raw_data_size photoCommitment))"
    by (simp add: validatingEnv_def demoEnv_def)
  from h1 h2 t ok show ?thesis by (simp add: idleHook_trace)
qed

text \<open>Scenario C: the wallet refuses to sign, and nothing is uploaded.\<close>

lemma rejected_upload:
  "uploadFile (demoEnv False True) (Some (js ''0x5ec'')) (Some alice) (Some foreignWallet)
     demoForm idleUpload
   = \<lparr>world = 3,
      trace =
        [CreateProvider
           (Some \<lparr>erasureN = Some 16, erasureK = Some 10, erasureD = Some 13\<rparr>) (Inr ()),
         GenerateCommitments () [255, 216, 255]
           (Inr \<lparr>blob_merkle_root = js ''0xroot'', raw_data_size = 3\<rparr>),
         DateNow 1762131600000,
         ExpectedTotalChunksets 3 (Inr 1),
         CreateRegisterBlobPayload
           \<lparr>arg_account = js ''0xa11ce'', arg_blobName = js ''New-York_2025-11-03_7.jpg'',
            arg_blobMerkleRoot = js ''0xroot'', arg_numChunksets = 1,
            arg_expirationMicros = 1762218000000000, arg_blobSize = 3\<rparr>
           (Inr \<lparr>arg_account = js ''0xa11ce'', arg_blobName = js ''New-York_2025-11-03_7.jpg'',
              arg_blobMerkleRoot = js ''0xroot'', arg_numChunksets = 1,
              arg_expirationMicros = 1762218000000000, arg_blobSize = 3\<rparr>),
         AccountFromPrivateKey (Some (js ''0x5ec'')) (Inr (js ''0x5ec'')),
         BuildSimple (js ''0xa11ce'')
           \<lparr>arg_account = js ''0xa11ce'', arg_blobName = js ''New-York_2025-11-03_7.jpg'',
            arg_blobMerkleRoot = js ''0xroot'', arg_numChunksets = 1,
            arg_expirationMicros = 1762218000000000, arg_blobSize = 3\<rparr>
           True (Inr 1),
         SignTransaction 1 (Inl (Error (js ''User rejected the request''))),
         ConsoleError (Error (js ''User rejected the request'')),
         Alert (js ''Upload failed: User rejected the request'')],
      isSubmitting = False, error = Some (js ''User rejected the request''),
      isUploading = False, showSuccessDialog = False, transactionHash = [],
      uploadedFileName = []\<rparr>"
  by (simp add: eval_defs) (simp add: js_def)

text \<open>Scenario A: a native wallet, the standard profile, one day.\<close>

lemma native_upload:
  "uploadFile (demoEnv True True) (Some (js ''0x5ec'')) (Some alice) (Some nativeWallet)
     demoForm idleUpload
   = \<lparr>world = 4,
      trace =
        [CreateProvider
           (Some \<lparr>erasureN = Some 16, erasureK = Some 10, erasureD = Some 13\<rparr>) (Inr ()),
         GenerateCommitments () [255, 216, 255]
           (Inr \<lparr>blob_merkle_root = js ''0xroot'', raw_data_size = 3\<rparr>),
         DateNow 1762131600000,
         ExpectedTotalChunksets 3 (Inr 1),
         CreateRegisterBlobPayload
           \<lparr>arg_account = js ''0xa11ce'', arg_blobName = js ''New-York_2025-11-03_7.jpg'',
            arg_blobMerkleRoot = js ''0xroot'', arg_numChunksets = 1,
            arg_expirationMicros = 1762218000000000, arg_blobSize = 3\<rparr>
           (Inr \<lparr>arg_account = js ''0xa11ce'', arg_blobName = js ''New-York_2025-11-03_7.jpg'',
              arg_blobMerkleRoot = js ''0xroot'', arg_numChunksets = 1,
              arg_expirationMicros = 1762218000000000, arg_blobSize = 3\<rparr>),
         SignAndSubmitTransaction
           \<lparr>arg_account = js ''0xa11ce'', arg_blobName = js ''New-York_2025-11-03_7.jpg'',
            arg_blobMerkleRoot = js ''0xroot'', arg_numChunksets = 1,
            arg_expirationMicros = 1762218000000000, arg_blobSize = 3\<rparr>
           (Inr (js ''0xa1'')),
         AptosWaitForTransaction (js ''0xa1'') (Inr ()),
         UploadFileToRcp
           \<lparr>file_name = js ''New-York_2025-11-03_7.jpg'', file_type = js ''image/jpeg'',
            file_bytes = [255, 216, 255]\<rparr> (Inr ()),
         SuccessDialog (js ''0xa1'') (js ''New-York_2025-11-03_7.jpg''),
         OnUploadSuccess (Inr ())],
      isSubmitting = False, error = None,
      isUploading = False, showSuccessDialog = True, transactionHash = js ''0xa1'',
      uploadedFileName = js ''New-York_2025-11-03_7.jpg''\<rparr>"
  by (simp add: eval_defs)

lemma idleUpload_fields:
  "trace idleUpload = []" "showSuccessDialog idleUpload = False"
  "transactionHash idleUpload = []" "uploadedFileName idleUpload = []"
  by (simp_all add: idleUpload_def)

text \<open>
  C2 at concrete runs: the wallet refuses to sign and nothing is uploaded; with a native
  wallet the success is reported after the finality of \<open>0xa1\<close> and after the upload.
\<close>

theorem no_upload_without_registration_witness:
  "list_ex chainStepFailed (eventsSince idleUpload
      (uploadFile (demoEnv False True) (Some (js ''0x5ec'')) (Some alice) (Some foreignWallet)
         demoForm idleUpload))
   \<and> \<not> list_ex isUpload (eventsSince idleUpload
      (uploadFile (demoEnv False True) (Some (js ''0x5ec'')) (Some alice) (Some foreignWallet)
         demoForm idleUpload))
   \<and> \<not> list_ex isSuccessReport (eventsSince idleUpload
      (uploadFile (demoEnv False True) (Some (js ''0x5ec'')) (Some alice) (Some foreignWallet)
         demoForm idleUpload))
   \<and> successFieldsKept idleUpload
      (uploadFile (demoEnv False True) (Some (js ''0x5ec'')) (Some alice) (Some foreignWallet)
         demoForm idleUpload)
   \<and> list_ex isSuccessReport (eventsSince idleUpload
      (uploadFile (demoEnv True True) (Some (js ''0x5ec'')) (Some alice) (Some nativeWallet)
         demoForm idleUpload))
   \<and> list_ex (finalized (js ''0xa1''))
      (takeWhile (\<lambda>ev. \<not> isSuccessReport ev) (eventsSince idleUpload
        (uploadFile (demoEnv True True) (Some (js ''0x5ec'')) (Some alice) (Some nativeWallet)
           demoForm idleUpload)))
   \<and> list_ex uploadSucceeded
      (takeWhile (\<lambda>ev. \<not> isSuccessReport ev) (eventsSince idleUpload
        (uploadFile (demoEnv True True) (Some (js ''0x5ec'')) (Some alice) (Some nativeWallet)
           demoForm idleUpload)))"
proof -
  let ?rej = "uploadFile (demoEnv False True) (Some (js ''0x5ec'')) (Some alice)
      (Some foreignWallet) demoForm idleUpload"
  let ?ok = "uploadFile (demoEnv True True) (Some (js ''0x5ec'')) (Some alice)
      (Some nativeWallet) demoForm idleUpload"
  have h1: "list_ex chainStepFailed (eventsSince idleUpload ?rej)"
    by (simp add: rejected_upload eventsSince_def idleUpload_fields)
  have h2: "list_ex isSuccessReport (eventsSince idleUpload ?ok)"
    by (simp add: native_upload eventsSince_def idleUpload_fields)
  have h3: "transactionHash ?ok = js ''0xa1''"
    by (simp add: native_upload)
  note t1 = no_upload_without_registration [of idleUpload "demoEnv False True"
      "Some (js ''0x5ec'')" "Some alice" "Some foreignWallet" demoForm]
  note t2 = no_upload_without_registration [of idleUpload "demoEnv True True"
      "Some (js ''0x5ec'')" "Some alice" "Some nativeWallet" demoForm]
  from t1 h1 have a: "\<not> list_ex isUpload (eventsSince idleUpload ?rej)
      \<and> \<not> list_ex isSuccessReport (eventsSince idleUpload ?rej)
      \<and> successFieldsKept idleUpload ?rej"
    by blast
  from t2 h2 have b: "list_ex (finalized (transactionHash ?ok))
        (takeWhile (\<lambda>ev. \<not> isSuccessReport ev) (eventsSince idleUpload ?ok))
      \<and> list_ex uploadSucceeded
        (takeWhile (\<lambda>ev. \<not> isSuccessReport ev) (eventsSince idleUpload ?ok))"
    by blast
  from h1 h2 a b show ?thesis
    unfolding h3 by blast
qed


end
